theory Spec2Isabelle
  imports Complex_Main "HOL-Library.Word"
begin

unbundle bit_operations_syntax

section \<open>The integer codec of utils.ts\<close>

text \<open>
  A \<open>Uint8Array\<close> or \<open>Buffer\<close> is a list of bytes, a \<open>bigint\<close> is an \<open>int\<close>.
  The two exceptions the codec can raise are values of \<open>js_error\<close>: the explicit
  \<open>throw new Error("Not Implemented")\<close> of \<open>byteArrayToBigInt\<close>, and the
  \<open>SyntaxError\<close> of the \<open>BigInt\<close> constructor on a string that is no integer literal.
\<close>

type_synonym byte = "8 word"

datatype js_error = NotImplemented | SyntaxError

subsection \<open>Hexadecimal strings\<close>

definition hexDigit :: "nat \<Rightarrow> char" where
  "hexDigit d = char_of (if d < 10 then 48 + d else 87 + d)"

definition hexVal :: "char \<Rightarrow> nat option" where
  "hexVal c =
     (let k = (of_char c :: nat) in
      if 48 \<le> k \<and> k \<le> 57 then Some (k - 48)
      else if 97 \<le> k \<and> k \<le> 102 then Some (k - 87)
      else if 65 \<le> k \<and> k \<le> 70 then Some (k - 55)
      else None)"

text \<open>\<open>n.toString(16)\<close> of a non-negative \<open>bigint\<close>: lower-case digits, no leading zero.\<close>

fun natToString16 :: "nat \<Rightarrow> string" where
  "natToString16 n =
     (if n < 16 then [hexDigit n]
      else natToString16 (n div 16) @ [hexDigit (n mod 16)])"

declare natToString16.simps [simp del]

text \<open>\<open>value.toString(16)\<close>: a negative value prints its magnitude after a minus sign.\<close>

definition toString16 :: "int \<Rightarrow> string" where
  "toString16 v =
     (if v < 0 then CHR ''-'' # natToString16 (nat (- v)) else natToString16 (nat v))"

text \<open>
  \<open>Buffer.from(str, 'hex')\<close>: one byte for each pair of hexadecimal digits; decoding
  stops at the first pair that is not two hexadecimal digits, and a single trailing
  character is dropped.
\<close>

fun Buffer_from_hex :: "string \<Rightarrow> byte list" where
  "Buffer_from_hex (a # b # rest) =
     (case hexVal a of
        None \<Rightarrow> []
      | Some h \<Rightarrow>
          (case hexVal b of
             None \<Rightarrow> []
           | Some l \<Rightarrow> of_nat (16 * h + l) # Buffer_from_hex rest))"
| "Buffer_from_hex _ = []"

text \<open>\<open>buffer.toString('hex')\<close>: two lower-case digits for each byte.\<close>

definition Buffer_toString_hex :: "byte list \<Rightarrow> string" where
  "Buffer_toString_hex buffer =
     concat (map (\<lambda>b. [hexDigit (unat b div 16), hexDigit (unat b mod 16)]) buffer)"

text \<open>
  \<open>BigInt(`0x${s}`)\<close>: the value of the hexadecimal digits \<open>s\<close>; a \<open>SyntaxError\<close> when
  \<open>s\<close> is empty (the string \<open>0x\<close> is no literal) or holds another character.
\<close>

fun hexDigitsValue :: "nat \<Rightarrow> string \<Rightarrow> nat option" where
  "hexDigitsValue acc [] = Some acc"
| "hexDigitsValue acc (c # cs) =
     (case hexVal c of
        None \<Rightarrow> None
      | Some d \<Rightarrow> hexDigitsValue (16 * acc + d) cs)"

definition BigInt_0x :: "string \<Rightarrow> js_error + int" where
  "BigInt_0x s =
     (if s = [] then Inl SyntaxError
      else case hexDigitsValue 0 s of
             None \<Rightarrow> Inl SyntaxError
           | Some n \<Rightarrow> Inr (int n))"

subsection \<open>toBigInt, toBuffer, allBitsSet\<close>

definition toBigInt :: "byte list \<Rightarrow> js_error + int" where
  "toBigInt buffer = BigInt_0x (Buffer_toString_hex buffer)"

text \<open>The step \<open>if (str.length % 2 == 1) { str = '0' + str }\<close> of \<open>toBuffer\<close>.\<close>

definition padEven :: "string \<Rightarrow> string" where
  "padEven str = (if length str mod 2 = 1 then CHR ''0'' # str else str)"

definition toBuffer :: "int \<Rightarrow> byte list" where
  "toBuffer v =
     (let str = toString16 v;
          str = padEven str
      in Buffer_from_hex str)"

fun allBitsSet :: "byte list \<Rightarrow> bool" where
  "allBitsSet [] = True"
| "allBitsSet (b # buffer) = (if b \<noteq> 0xff then False else allBitsSet buffer)"

text \<open>
  \<open>buffer[0] & 0x80\<close>: the first byte masked with the sign bit; on an empty buffer
  \<open>buffer[0]\<close> is \<open>undefined\<close>, which \<open>&\<close> reads as 0.
\<close>

definition firstByteAnd0x80 :: "byte list \<Rightarrow> byte" where
  "firstByteAnd0x80 buffer = (case buffer of [] \<Rightarrow> 0 | b # _ \<Rightarrow> b AND 0x80)"

subsection \<open>byteArrayToBigInt\<close>

definition byteArrayToBigInt :: "byte list \<Rightarrow> js_error + int" where
  "byteArrayToBigInt v =
     (let buffer = rev v;
          negativeValue = firstByteAnd0x80 buffer
      in if negativeValue = 0 then toBigInt buffer else Inl NotImplemented)"

subsection \<open>bigIntToByteArray\<close>

text \<open>The loop \<open>while (i < end) { buffer[i] = buffer[i] ^ 0xff; i++ }\<close>.\<close>

function invertLoop :: "nat \<Rightarrow> nat \<Rightarrow> byte list \<Rightarrow> byte list" where
  "invertLoop i e buffer =
     (if i < e then invertLoop (i + 1) e (buffer[i := (buffer ! i) XOR 0xff]) else buffer)"
  by pat_completeness auto
termination
  by (relation "measure (\<lambda>(i, e, buffer). e - i)") auto

declare invertLoop.simps [simp del]

definition bigIntToByteArray :: "int \<Rightarrow> js_error + byte list" where
  "bigIntToByteArray v =
     (if v \<ge> 0 then
        (let buffer = toBuffer v;
             buffer = (if firstByteAnd0x80 buffer \<noteq> 0 then [0] @ buffer else buffer)
         in Inr (rev buffer))
      else
        (let buffer = toBuffer (v * (- 1));
             buffer = (if allBitsSet buffer then [0x00] @ buffer else buffer);
             buffer = invertLoop 0 (length buffer) buffer
         in case toBigInt buffer of
              Inl err \<Rightarrow> Inl err
            | Inr x \<Rightarrow>
                (let buffer2 = toBuffer (x + 1);
                     buffer2 = (if \<not> (firstByteAnd0x80 buffer2 \<noteq> 0)
                                then [0xff] @ buffer2 else buffer2)
                 in Inr (rev buffer2))))"

subsection \<open>byteArrayToBigInt on a store of buffers\<close>

text \<open>
  Buffers are mutable objects, and \<open>reverse\<close> works in place. A store is the list of
  the buffers allocated so far, a reference is an index into it. \<open>Buffer.from(value)\<close>
  allocates a new buffer holding a copy of the bytes of \<open>value\<close>;
  \<open>buffer.reverse()\<close> overwrites the buffer it is called on.
\<close>

type_synonym buffer_store = "byte list list"
type_synonym buffer_ref = nat

definition Buffer_from :: "buffer_store \<Rightarrow> buffer_ref \<Rightarrow> buffer_store \<times> buffer_ref" where
  "Buffer_from h v = (h @ [h ! v], length h)"

definition Buffer_reverse :: "buffer_store \<Rightarrow> buffer_ref \<Rightarrow> buffer_store" where
  "Buffer_reverse h b = h[b := rev (h ! b)]"

definition byteArrayToBigInt_store ::
  "buffer_store \<Rightarrow> buffer_ref \<Rightarrow> (js_error + int) \<times> buffer_store" where
  "byteArrayToBigInt_store h v =
     (let (h1, buffer) = Buffer_from h v;
          h2 = Buffer_reverse h1 buffer;
          negativeValue = firstByteAnd0x80 (h2 ! buffer)
      in (if negativeValue = 0 then toBigInt (h2 ! buffer) else Inl NotImplemented, h2))"

subsection \<open>The encoding in the words of the specification\<close>

text \<open>
  The big-endian magnitude bytes of a natural number: its base-256 digits, most
  significant first, without a leading zero byte (the single byte 0 for 0), and the
  number a byte string stands for when read as a big-endian magnitude.
\<close>

fun magnitude_be :: "nat \<Rightarrow> byte list" where
  "magnitude_be n =
     (if n < 256 then [of_nat n] else magnitude_be (n div 256) @ [of_nat (n mod 256)])"

declare magnitude_be.simps [simp del]

definition magnitude_value :: "byte list \<Rightarrow> nat" where
  "magnitude_value bs = foldl (\<lambda>acc b. 256 * acc + unat b) 0 bs"

text \<open>
  For \<open>n > 0\<close>: the magnitude big-endian, a \<open>0x00\<close> byte in front if the most
  significant bit of the first byte is set, reversed to little-endian.
\<close>

definition spec_encode_positive :: "int \<Rightarrow> byte list" where
  "spec_encode_positive n =
     (let m = magnitude_be (nat n);
          m = (if bit (hd m) 7 then 0x00 # m else m)
      in rev m)"

text \<open>
  For \<open>n < 0\<close>: the magnitude of \<open>|n|\<close> big-endian; a \<open>0x00\<close> padding byte in front if
  all its bytes are \<open>0xFF\<close>; every byte inverted; the result read as a big-endian
  magnitude, plus one, encoded again; a \<open>0xFF\<close> byte in front if the most
  significant bit is clear; reversed to little-endian.
\<close>

definition spec_encode_negative :: "int \<Rightarrow> byte list" where
  "spec_encode_negative n =
     (let m = magnitude_be (nat \<bar>n\<bar>);
          m = (if list_all (\<lambda>b. b = 0xff) m then 0x00 # m else m);
          inverted = map (\<lambda>b. NOT b) m;
          r = magnitude_be (magnitude_value inverted + 1);
          r = (if bit (hd r) 7 then r else 0xff # r)
      in rev r)"

text \<open>
  Two's complement, little-endian: the value a byte string stands for, and when its most
  significant byte (the last one) can be removed without changing that value.
\<close>

definition twosComplementValue :: "byte list \<Rightarrow> int" where
  "twosComplementValue bs =
     (let u = int (magnitude_value (rev bs))
      in if bs \<noteq> [] \<and> bit (last bs) 7 then u - 2 ^ (8 * length bs) else u)"

definition removableLeadingByte :: "byte list \<Rightarrow> bool" where
  "removableLeadingByte bs =
     (case rev bs of
        msb # b # _ \<Rightarrow> (msb = 0x00 \<and> \<not> bit b 7) \<or> (msb = 0xff \<and> bit b 7)
      | _ \<Rightarrow> False)"

subsection \<open>The tables of bigIntToByteArray.spec.ts\<close>

text \<open>
  The two tables of the test file, each entry a value and the expected bytes in
  hexadecimal, and the two checks the tests run on an entry. The test file runs
  \<open>testConvertBuffer\<close> on the positive table only.
\<close>

definition positiveValueTests :: "(int \<times> string) list" where
  "positiveValueTests =
    [(0, ''00''), (1, ''01''), (2, ''02''), (3, ''03''), (4, ''04''), (5, ''05''),
     (7, ''07''), (8, ''08''), (9, ''09''), (15, ''0F''), (16, ''10''), (17, ''11''),
     (31, ''1F''), (32, ''20''), (33, ''21''), (63, ''3F''), (64, ''40''), (65, ''41''),
     (127, ''7F''), (128, ''8000''), (129, ''8100''), (255, ''FF00''), (256, ''0001''),
     (257, ''0101''), (511, ''FF01''), (512, ''0002''), (513, ''0102''), (1023, ''FF03''),
     (1024, ''0004''), (1025, ''0104''), (2047, ''FF07''), (2048, ''0008''),
     (2049, ''0108''), (4095, ''FF0F''), (4096, ''0010''), (4097, ''0110''),
     (8191, ''FF1F''), (8192, ''0020''), (8193, ''0120''), (16383, ''FF3F''),
     (16384, ''0040''), (16385, ''0140''), (32767, ''FF7F''), (32768, ''008000''),
     (32769, ''018000''), (65535, ''FFFF00''), (65536, ''000001''), (65537, ''010001''),
     (131071, ''FFFF01''), (131072, ''000002''), (131073, ''010002''),
     (262143, ''FFFF03''), (262144, ''000004''), (262145, ''010004''),
     (524287, ''FFFF07''), (524288, ''000008''), (524289, ''010008''),
     (1048575, ''FFFF0F''), (1048576, ''000010''), (1048577, ''010010''),
     (2097151, ''FFFF1F''), (2097152, ''000020''), (2097153, ''010020''),
     (4194303, ''FFFF3F''), (4194304, ''000040''), (4194305, ''010040''),
     (8388607, ''FFFF7F''), (8388608, ''00008000''), (8388609, ''01008000''),
     (16777215, ''FFFFFF00''), (16777216, ''00000001''), (16777217, ''01000001''),
     (33554431, ''FFFFFF01''), (33554432, ''00000002''), (33554433, ''01000002''),
     (67108863, ''FFFFFF03''), (67108864, ''00000004''), (67108865, ''01000004''),
     (134217727, ''FFFFFF07''), (134217728, ''00000008''), (134217729, ''01000008''),
     (268435455, ''FFFFFF0F''), (268435456, ''00000010''), (268435457, ''01000010''),
     (536870911, ''FFFFFF1F''), (536870912, ''00000020''), (536870913, ''01000020''),
     (1073741823, ''FFFFFF3F''), (1073741824, ''00000040''), (1073741825, ''01000040''),
     (2147483647, ''FFFFFF7F''), (2147483648, ''0000008000''),
     (2147483649, ''0100008000''), (4294967295, ''FFFFFFFF00''),
     (4294967296, ''0000000001''), (4294967297, ''0100000001''),
     (8589934591, ''FFFFFFFF01''), (8589934592, ''0000000002''),
     (8589934593, ''0100000002''), (17179869183, ''FFFFFFFF03''),
     (17179869184, ''0000000004''), (17179869185, ''0100000004''),
     (34359738367, ''FFFFFFFF07''), (34359738368, ''0000000008''),
     (34359738369, ''0100000008''), (68719476735, ''FFFFFFFF0F''),
     (68719476736, ''0000000010''), (68719476737, ''0100000010''),
     (137438953471, ''FFFFFFFF1F''), (137438953472, ''0000000020''),
     (137438953473, ''0100000020''), (274877906943, ''FFFFFFFF3F''),
     (274877906944, ''0000000040''), (274877906945, ''0100000040''),
     (549755813887, ''FFFFFFFF7F''), (549755813888, ''000000008000''),
     (549755813889, ''010000008000''), (1099511627775, ''FFFFFFFFFF00''),
     (1099511627776, ''000000000001''), (1099511627777, ''010000000001''),
     (2199023255551, ''FFFFFFFFFF01''), (2199023255552, ''000000000002''),
     (2199023255553, ''010000000002''), (4398046511103, ''FFFFFFFFFF03''),
     (4398046511104, ''000000000004''), (4398046511105, ''010000000004''),
     (8796093022207, ''FFFFFFFFFF07''), (8796093022208, ''000000000008''),
     (8796093022209, ''010000000008''), (17592186044415, ''FFFFFFFFFF0F''),
     (17592186044416, ''000000000010''), (17592186044417, ''010000000010''),
     (35184372088831, ''FFFFFFFFFF1F''), (35184372088832, ''000000000020''),
     (35184372088833, ''010000000020''), (70368744177663, ''FFFFFFFFFF3F''),
     (70368744177664, ''000000000040''), (70368744177665, ''010000000040''),
     (140737488355327, ''FFFFFFFFFF7F''), (140737488355328, ''00000000008000''),
     (140737488355329, ''01000000008000''), (281474976710655, ''FFFFFFFFFFFF00''),
     (281474976710656, ''00000000000001''), (281474976710657, ''01000000000001''),
     (562949953421311, ''FFFFFFFFFFFF01''), (562949953421312, ''00000000000002''),
     (562949953421313, ''01000000000002''), (1125899906842623, ''FFFFFFFFFFFF03''),
     (1125899906842624, ''00000000000004''), (1125899906842625, ''01000000000004''),
     (2251799813685247, ''FFFFFFFFFFFF07''), (2251799813685248, ''00000000000008''),
     (2251799813685249, ''01000000000008''), (4503599627370495, ''FFFFFFFFFFFF0F''),
     (4503599627370496, ''00000000000010''), (4503599627370497, ''01000000000010''),
     (9007199254740991, ''FFFFFFFFFFFF1F''), (9007199254740992, ''00000000000020''),
     (9007199254740993, ''01000000000020''), (18014398509481983, ''FFFFFFFFFFFF3F''),
     (18014398509481984, ''00000000000040''), (18014398509481985, ''01000000000040''),
     (36028797018963967, ''FFFFFFFFFFFF7F''), (36028797018963968, ''0000000000008000''),
     (36028797018963969, ''0100000000008000''), (72057594037927935, ''FFFFFFFFFFFFFF00''),
     (72057594037927936, ''0000000000000001''), (72057594037927937, ''0100000000000001''),
     (144115188075855871, ''FFFFFFFFFFFFFF01''),
     (144115188075855872, ''0000000000000002''),
     (144115188075855873, ''0100000000000002''),
     (288230376151711743, ''FFFFFFFFFFFFFF03''),
     (288230376151711744, ''0000000000000004''),
     (288230376151711745, ''0100000000000004''),
     (576460752303423487, ''FFFFFFFFFFFFFF07''),
     (576460752303423488, ''0000000000000008''),
     (576460752303423489, ''0100000000000008''),
     (1152921504606846975, ''FFFFFFFFFFFFFF0F''),
     (1152921504606846976, ''0000000000000010''),
     (1152921504606846977, ''0100000000000010''),
     (2305843009213693951, ''FFFFFFFFFFFFFF1F''),
     (2305843009213693952, ''0000000000000020''),
     (2305843009213693953, ''0100000000000020''),
     (4611686018427387903, ''FFFFFFFFFFFFFF3F''),
     (4611686018427387904, ''0000000000000040''),
     (4611686018427387905, ''0100000000000040''),
     (9223372036854775807, ''FFFFFFFFFFFFFF7F''),
     (9223372036854775808, ''000000000000008000''),
     (9223372036854775809, ''010000000000008000''),
     (18446744073709551615, ''FFFFFFFFFFFFFFFF00''),
     (18446744073709551616, ''000000000000000001''),
     (18446744073709551617, ''010000000000000001'')]"

definition negativeValueTests :: "(int \<times> string) list" where
  "negativeValueTests =
    [(- 1, ''FF''), (- 2, ''FE''), (- 3, ''FD''), (- 4, ''FC''), (- 5, ''FB''),
     (- 7, ''F9''), (- 8, ''F8''), (- 9, ''F7''), (- 15, ''F1''), (- 16, ''F0''),
     (- 17, ''EF''), (- 31, ''E1''), (- 32, ''E0''), (- 33, ''DF''), (- 63, ''C1''),
     (- 64, ''C0''), (- 65, ''BF''), (- 127, ''81''), (- 128, ''80''), (- 129, ''7FFF''),
     (- 255, ''01FF''), (- 256, ''00FF''), (- 257, ''FFFE''), (- 511, ''01FE''),
     (- 512, ''00FE''), (- 513, ''FFFD''), (- 1023, ''01FC''), (- 1024, ''00FC''),
     (- 1025, ''FFFB''), (- 2047, ''01F8''), (- 2048, ''00F8''), (- 2049, ''FFF7''),
     (- 4095, ''01F0''), (- 4096, ''00F0''), (- 4097, ''FFEF''), (- 8191, ''01E0''),
     (- 8192, ''00E0''), (- 8193, ''FFDF''), (- 16383, ''01C0''), (- 16384, ''00C0''),
     (- 16385, ''FFBF''), (- 32767, ''0180''), (- 32768, ''0080''), (- 32769, ''FF7FFF''),
     (- 65535, ''0100FF''), (- 65536, ''0000FF''), (- 65537, ''FFFFFE''),
     (- 131071, ''0100FE''), (- 131072, ''0000FE''), (- 131073, ''FFFFFD''),
     (- 262143, ''0100FC''), (- 262144, ''0000FC''), (- 262145, ''FFFFFB''),
     (- 524287, ''0100F8''), (- 524288, ''0000F8''), (- 524289, ''FFFFF7''),
     (- 1048575, ''0100F0''), (- 1048576, ''0000F0''), (- 1048577, ''FFFFEF''),
     (- 2097151, ''0100E0''), (- 2097152, ''0000E0''), (- 2097153, ''FFFFDF''),
     (- 4194303, ''0100C0''), (- 4194304, ''0000C0''), (- 4194305, ''FFFFBF''),
     (- 8388607, ''010080''), (- 8388608, ''000080''), (- 8388609, ''FFFF7FFF''),
     (- 16777215, ''010000FF''), (- 16777216, ''000000FF''), (- 16777217, ''FFFFFFFE''),
     (- 33554431, ''010000FE''), (- 33554432, ''000000FE''), (- 33554433, ''FFFFFFFD''),
     (- 67108863, ''010000FC''), (- 67108864, ''000000FC''), (- 67108865, ''FFFFFFFB''),
     (- 134217727, ''010000F8''), (- 134217728, ''000000F8''),
     (- 134217729, ''FFFFFFF7''), (- 268435455, ''010000F0''),
     (- 268435456, ''000000F0''), (- 268435457, ''FFFFFFEF''),
     (- 536870911, ''010000E0''), (- 536870912, ''000000E0''),
     (- 536870913, ''FFFFFFDF''), (- 1073741823, ''010000C0''),
     (- 1073741824, ''000000C0''), (- 1073741825, ''FFFFFFBF''),
     (- 2147483647, ''01000080''), (- 2147483648, ''00000080''),
     (- 2147483649, ''FFFFFF7FFF''), (- 4294967295, ''01000000FF''),
     (- 4294967296, ''00000000FF''), (- 4294967297, ''FFFFFFFFFE''),
     (- 8589934591, ''01000000FE''), (- 8589934592, ''00000000FE''),
     (- 8589934593, ''FFFFFFFFFD''), (- 17179869183, ''01000000FC''),
     (- 17179869184, ''00000000FC''), (- 17179869185, ''FFFFFFFFFB''),
     (- 34359738367, ''01000000F8''), (- 34359738368, ''00000000F8''),
     (- 34359738369, ''FFFFFFFFF7''), (- 68719476735, ''01000000F0''),
     (- 68719476736, ''00000000F0''), (- 68719476737, ''FFFFFFFFEF''),
     (- 137438953471, ''01000000E0''), (- 137438953472, ''00000000E0''),
     (- 137438953473, ''FFFFFFFFDF''), (- 274877906943, ''01000000C0''),
     (- 274877906944, ''00000000C0''), (- 274877906945, ''FFFFFFFFBF''),
     (- 549755813887, ''0100000080''), (- 549755813888, ''0000000080''),
     (- 549755813889, ''FFFFFFFF7FFF''), (- 1099511627775, ''0100000000FF''),
     (- 1099511627776, ''0000000000FF''), (- 1099511627777, ''FFFFFFFFFFFE''),
     (- 2199023255551, ''0100000000FE''), (- 2199023255552, ''0000000000FE''),
     (- 2199023255553, ''FFFFFFFFFFFD''), (- 4398046511103, ''0100000000FC''),
     (- 4398046511104, ''0000000000FC''), (- 4398046511105, ''FFFFFFFFFFFB''),
     (- 8796093022207, ''0100000000F8''), (- 8796093022208, ''0000000000F8''),
     (- 8796093022209, ''FFFFFFFFFFF7''), (- 17592186044415, ''0100000000F0''),
     (- 17592186044416, ''0000000000F0''), (- 17592186044417, ''FFFFFFFFFFEF''),
     (- 35184372088831, ''0100000000E0''), (- 35184372088832, ''0000000000E0''),
     (- 35184372088833, ''FFFFFFFFFFDF''), (- 70368744177663, ''0100000000C0''),
     (- 70368744177664, ''0000000000C0''), (- 70368744177665, ''FFFFFFFFFFBF''),
     (- 140737488355327, ''010000000080''), (- 140737488355328, ''000000000080''),
     (- 140737488355329, ''FFFFFFFFFF7FFF''), (- 281474976710655, ''010000000000FF''),
     (- 281474976710656, ''000000000000FF''), (- 281474976710657, ''FFFFFFFFFFFFFE''),
     (- 562949953421311, ''010000000000FE''), (- 562949953421312, ''000000000000FE''),
     (- 562949953421313, ''FFFFFFFFFFFFFD''), (- 1125899906842623, ''010000000000FC''),
     (- 1125899906842624, ''000000000000FC''), (- 1125899906842625, ''FFFFFFFFFFFFFB''),
     (- 2251799813685247, ''010000000000F8''), (- 2251799813685248, ''000000000000F8''),
     (- 2251799813685249, ''FFFFFFFFFFFFF7''), (- 4503599627370495, ''010000000000F0''),
     (- 4503599627370496, ''000000000000F0''), (- 4503599627370497, ''FFFFFFFFFFFFEF''),
     (- 9007199254740991, ''010000000000E0''), (- 9007199254740992, ''000000000000E0''),
     (- 9007199254740993, ''FFFFFFFFFFFFDF''), (- 18014398509481983, ''010000000000C0''),
     (- 18014398509481984, ''000000000000C0''), (- 18014398509481985, ''FFFFFFFFFFFFBF''),
     (- 36028797018963967, ''01000000000080''), (- 36028797018963968, ''00000000000080''),
     (- 36028797018963969, ''FFFFFFFFFFFF7FFF''),
     (- 72057594037927935, ''01000000000000FF''),
     (- 72057594037927936, ''00000000000000FF''),
     (- 72057594037927937, ''FFFFFFFFFFFFFFFE''),
     (- 144115188075855871, ''01000000000000FE''),
     (- 144115188075855872, ''00000000000000FE''),
     (- 144115188075855873, ''FFFFFFFFFFFFFFFD''),
     (- 288230376151711743, ''01000000000000FC''),
     (- 288230376151711744, ''00000000000000FC''),
     (- 288230376151711745, ''FFFFFFFFFFFFFFFB''),
     (- 576460752303423487, ''01000000000000F8''),
     (- 576460752303423488, ''00000000000000F8''),
     (- 576460752303423489, ''FFFFFFFFFFFFFFF7''),
     (- 1152921504606846975, ''01000000000000F0''),
     (- 1152921504606846976, ''00000000000000F0''),
     (- 1152921504606846977, ''FFFFFFFFFFFFFFEF''),
     (- 2305843009213693951, ''01000000000000E0''),
     (- 2305843009213693952, ''00000000000000E0''),
     (- 2305843009213693953, ''FFFFFFFFFFFFFFDF''),
     (- 4611686018427387903, ''01000000000000C0''),
     (- 4611686018427387904, ''00000000000000C0''),
     (- 4611686018427387905, ''FFFFFFFFFFFFFFBF''),
     (- 9223372036854775807, ''0100000000000080''),
     (- 9223372036854775808, ''0000000000000080''),
     (- 9223372036854775809, ''FFFFFFFFFFFFFF7FFF''),
     (- 18446744073709551615, ''0100000000000000FF''),
     (- 18446744073709551616, ''0000000000000000FF''),
     (- 18446744073709551617, ''FFFFFFFFFFFFFFFFFE'')]"

definition testConvertInt :: "int \<Rightarrow> string \<Rightarrow> bool" where
  "testConvertInt v expected = (bigIntToByteArray v = Inr (Buffer_from_hex expected))"

definition testConvertBuffer :: "int \<Rightarrow> string \<Rightarrow> bool" where
  "testConvertBuffer v expected = (byteArrayToBigInt (Buffer_from_hex expected) = Inr v)"

text \<open>\<open>byteArrayToBigInt(bigIntToByteArray(n))\<close>, an exception of either call passed on.\<close>

definition decodeEncoded :: "int \<Rightarrow> js_error + int" where
  "decodeEncoded n =
     (case bigIntToByteArray n of Inl err \<Rightarrow> Inl err | Inr bytes \<Rightarrow> byteArrayToBigInt bytes)"

section \<open>Operations and the expression translator of passes/expressionProcessor.ts\<close>

subsection \<open>Operations\<close>

text \<open>
  Modelled from the spec: the \<open>Operation\<close> type of \<open>types/Operation.ts\<close>, which is not
  among the sources. An operation is a tagged variant; the control operations jump,
  jump-if, jump-if-not and call carry a reference to their target operation, and a
  no-op serves as a jump target. Targets are compared by identity (\<open>===\<close>), so an
  operation is an object: the identity it was allocated with, and its kind with the operands of that kind. A
  reference to a target is the identity of the target. Identities are allocated in
  increasing order; the next free one is passed to a function that creates objects
  and returned by it.
\<close>

type_synonym object_id = nat

datatype OperationKind =
    Noop
  | Jump object_id
  | JumpIf object_id
  | JumpIfNot object_id
  | Call object_id
  | PushInt int
  | PushData "byte list"
  | PushBool bool
  | PushNull
  | OtherOperation string

record Operation =
  obj :: object_id
  kind :: OperationKind

text \<open>An object literal \<open>{ kind: ... }\<close> allocates a new object.\<close>

definition newOperation :: "object_id \<Rightarrow> OperationKind \<Rightarrow> Operation \<times> object_id" where
  "newOperation next f = (\<lparr>obj = next, kind = f\<rparr>, next + 1)"

text \<open>
  Modelled from the spec: \<open>isJumpTargetOp\<close> of \<open>types/Operation.ts\<close>, the test for a
  jump-style operation, one that carries a target; \<open>targetOf\<close> gives the target.
\<close>

definition targetOf :: "Operation \<Rightarrow> object_id option" where
  "targetOf op =
     (case kind op of
        Jump t \<Rightarrow> Some t
      | JumpIf t \<Rightarrow> Some t
      | JumpIfNot t \<Rightarrow> Some t
      | Call t \<Rightarrow> Some t
      | _ \<Rightarrow> None)"

definition isJumpTargetOp :: "Operation \<Rightarrow> bool" where
  "isJumpTargetOp op = (targetOf op \<noteq> None)"

text \<open>\<open>ROA.append\<close> and \<open>ROA.concat\<close> of fp-ts, as they are used in a \<open>pipe\<close>.\<close>

definition ROA_append :: "'a \<Rightarrow> 'a list \<Rightarrow> 'a list" where
  "ROA_append x xs = xs @ [x]"

definition ROA_concat :: "'a list \<Rightarrow> 'a list \<Rightarrow> 'a list" where
  "ROA_concat second first = first @ second"

subsection \<open>makeConditionalExpression\<close>

definition makeConditionalExpression ::
  "object_id \<Rightarrow> Operation list \<Rightarrow> Operation list \<Rightarrow> Operation list
   \<Rightarrow> Operation list \<times> object_id" where
  "makeConditionalExpression next condition whenTrue whenFalse =
     (let (falseTarget, next) = newOperation next Noop;
          (endTarget, next) = newOperation next Noop;
          (jumpifnot, next) = newOperation next (JumpIfNot (obj falseTarget));
          (jump, next) = newOperation next (Jump (obj endTarget))
      in ((ROA_append endTarget \<circ> ROA_concat whenFalse \<circ> ROA_append falseTarget
           \<circ> ROA_append jump \<circ> ROA_concat whenTrue \<circ> ROA_append jumpifnot) condition,
          next))"

text \<open>
  The invariant of operation sequences: the target of every jump-style operation
  appears exactly once in the sequence, after the operation. \<open>targetsOk pre ops post\<close>
  checks the operations \<open>ops\<close> of a sequence whose operations before \<open>ops\<close> have the
  identities \<open>pre\<close> and whose operations after \<open>ops\<close> have the identities \<open>post\<close>.
\<close>

definition jumpOk :: "object_id list \<Rightarrow> Operation \<Rightarrow> object_id list \<Rightarrow> bool" where
  "jumpOk before op after =
     (case targetOf op of
        None \<Rightarrow> True
      | Some t \<Rightarrow> t \<notin> set before \<and> t \<noteq> obj op \<and> count_list after t = 1)"

fun targetsOk :: "object_id list \<Rightarrow> Operation list \<Rightarrow> object_id list \<Rightarrow> bool" where
  "targetsOk pre [] post = True"
| "targetsOk pre (op # rest) post =
     (jumpOk pre op (map obj rest @ post) \<and> targetsOk (pre @ [obj op]) rest post)"

definition wellTargeted :: "Operation list \<Rightarrow> bool" where
  "wellTargeted ops = targetsOk [] ops []"

text \<open>
  Every object of the list was allocated before \<open>next\<close>, and every object a jump-style
  operation of the list has as its target was: a reference is to an object that exists.
\<close>

definition allocatedBefore :: "object_id \<Rightarrow> Operation list \<Rightarrow> bool" where
  "allocatedBefore next ops = list_all (\<lambda>op. obj op < next) ops"

definition targetsAllocatedBefore :: "object_id \<Rightarrow> Operation list \<Rightarrow> bool" where
  "targetsAllocatedBefore next ops =
     list_all (\<lambda>op. case targetOf op of None \<Rightarrow> True | Some t \<Rightarrow> t < next) ops"


subsection \<open>The expression chain\<close>

text \<open>
  A syntax node of the front end, as far as the translator looks at it: its kind, the
  value of a literal, and the expression a node holds inside (the target of a property
  access or of a call). The value of a numeric literal is a JavaScript number; the
  translator asks only \<open>Number.isInteger\<close> of it, so a number is either an integer or
  another number, kept in its printed form.
\<close>

datatype js_number = IntegerNumber int | OtherNumber string

datatype tsExpression =
    BigIntLiteral int
  | FalseKeyword
  | TrueKeyword
  | Identifier string
  | NullKeyword
  | NumericLiteral js_number
  | StringLiteral string
  | OtherExpression string "tsExpression option"

text \<open>\<open>node.getKindName()\<close>.\<close>

fun getKindName :: "tsExpression \<Rightarrow> string" where
  "getKindName (BigIntLiteral _) = ''BigIntLiteral''"
| "getKindName FalseKeyword = ''FalseKeyword''"
| "getKindName TrueKeyword = ''TrueKeyword''"
| "getKindName (Identifier _) = ''Identifier''"
| "getKindName NullKeyword = ''NullKeyword''"
| "getKindName (NumericLiteral _) = ''NumericLiteral''"
| "getKindName (StringLiteral _) = ''StringLiteral''"
| "getKindName (OtherExpression k _) = k"

text \<open>
  Modelled from the spec: \<open>TS.getExpression\<close> of the module \<open>TS\<close>, which is not among the
  sources: the expression inside a node, if the node has one. Literals, keywords and
  identifiers have none.
\<close>

fun getExpression :: "tsExpression \<Rightarrow> tsExpression option" where
  "getExpression (OtherExpression _ e) = e"
| "getExpression _ = None"

text \<open>
  Modelled from the spec: \<open>ParseError\<close> and \<open>makeParseError\<close> of \<open>utils.ts\<close>, which
  are not in the version of that file among the sources: a parse error has a message
  and carries the offending node.
\<close>

record ParseError =
  message :: string
  node :: "tsExpression option"

definition makeParseError :: "tsExpression \<Rightarrow> string \<Rightarrow> ParseError" where
  "makeParseError n msg = \<lparr>message = msg, node = Some n\<rparr>"

text \<open>
  A symbol is an opaque handle with a name. A compile-time object has the symbol it was
  declared with and, optionally, \<open>getLoadOps\<close>, which from a scope and the node that
  loads the object gives the operations of the load, or an error. The type of scopes
  and the lookup \<open>resolve\<close> of \<open>types/CompileTimeObject.ts\<close> are not among the sources:
  the scope is a type parameter, and \<open>resolve\<close> and \<open>TS.parseSymbol\<close> are parameters of
  the functions that call them.
\<close>

datatype Symbol = Symbol (symbolId: nat) (getName: string)

record 'scope CompileTimeObject =
  symbol :: Symbol
  getLoadOps :: "('scope \<Rightarrow> tsExpression \<Rightarrow> ParseError + Operation list) option"

record 'scope ExpressionChainContext =
  scope :: 'scope
  endTarget :: Operation
  ops :: "Operation list"
  cto :: "'scope CompileTimeObject option"
  error :: "ParseError option"

text \<open>
  Modelled from the spec: \<open>pushInt\<close> and \<open>pushString\<close> of \<open>types/Operation.ts\<close>, the
  push-integer operation of a value and the push-data operation of the UTF-8 bytes of a
  string. A string of the model is its bytes. The operation they return is a new
  object.
\<close>

definition pushInt :: "int \<Rightarrow> OperationKind" where
  "pushInt v = PushInt v"

definition pushString :: "string \<Rightarrow> OperationKind" where
  "pushString s = PushData (map (\<lambda>c. of_nat (of_char c)) s)"

text \<open>
  The reducers take the next free object identity with the context and return it with
  the new context, as every literal step allocates the operation it appends.
\<close>

definition reduceBigIntLitera ::
  "object_id \<Rightarrow> 'scope ExpressionChainContext \<Rightarrow> int
   \<Rightarrow> 'scope ExpressionChainContext \<times> object_id" where
  "reduceBigIntLitera next context v =
     (let (op, next) = newOperation next (pushInt v);
          operations = ROA_append op (ops context)
      in (context\<lparr>ops := operations\<rparr>, next))"

definition reduceBooleanLiteral ::
  "object_id \<Rightarrow> 'scope ExpressionChainContext \<Rightarrow> bool
   \<Rightarrow> 'scope ExpressionChainContext \<times> object_id" where
  "reduceBooleanLiteral next context v =
     (let (op, next) = newOperation next (PushBool v);
          operations = ROA_append op (ops context)
      in (context\<lparr>ops := operations\<rparr>, next))"

definition reduceNullLiteral ::
  "object_id \<Rightarrow> 'scope ExpressionChainContext
   \<Rightarrow> 'scope ExpressionChainContext \<times> object_id" where
  "reduceNullLiteral next context =
     (let (op, next) = newOperation next PushNull;
          operations = ROA_append op (ops context)
      in (context\<lparr>ops := operations\<rparr>, next))"

definition reduceNumericLiteral ::
  "object_id \<Rightarrow> 'scope ExpressionChainContext \<Rightarrow> tsExpression \<Rightarrow> js_number
   \<Rightarrow> 'scope ExpressionChainContext \<times> object_id" where
  "reduceNumericLiteral next context n v =
     (case v of
        IntegerNumber i \<Rightarrow>
          (let (op, next) = newOperation next (pushInt i)
           in (context\<lparr>ops := ROA_append op (ops context)\<rparr>, next))
      | OtherNumber printed \<Rightarrow>
          (context\<lparr>error := Some (makeParseError n
              (''invalid non-integer numeric literal '' @ printed))\<rparr>, next))"

definition reduceStringLiteral ::
  "object_id \<Rightarrow> 'scope ExpressionChainContext \<Rightarrow> string
   \<Rightarrow> 'scope ExpressionChainContext \<times> object_id" where
  "reduceStringLiteral next context v =
     (let (op, next) = newOperation next (pushString v);
          operations = ROA_append op (ops context)
      in (context\<lparr>ops := operations\<rparr>, next))"

text \<open>
  \<open>reduceIdentifier\<close>: the symbol of the node, the object it resolves to in the scope,
  and the load operations of that object; the first of the three that fails gives the
  error of the context. On success the context takes the object and the operations
  \<open>ROA.concat(context.ops)(loadOps)\<close>.
\<close>

definition reduceIdentifier ::
  "(tsExpression \<Rightarrow> ParseError + Symbol)
   \<Rightarrow> ('scope \<Rightarrow> Symbol \<Rightarrow> 'scope CompileTimeObject option)
   \<Rightarrow> 'scope ExpressionChainContext \<Rightarrow> tsExpression \<Rightarrow> 'scope ExpressionChainContext" where
  "reduceIdentifier parseSymbol resolve context n =
     (case parseSymbol n of
        Inl err \<Rightarrow> context\<lparr>error := Some err\<rparr>
      | Inr smb \<Rightarrow>
          (case resolve (scope context) smb of
             None \<Rightarrow> context\<lparr>error := Some (makeParseError n
                       (''Failed to resolve identifier '' @ getName smb))\<rparr>
           | Some c \<Rightarrow>
               (case getLoadOps c of
                  None \<Rightarrow> context\<lparr>error := Some (makeParseError n
                            (getName (symbol c) @ '' does not support load operations''))\<rparr>
                | Some load \<Rightarrow>
                    (case load (scope context) n of
                       Inl err \<Rightarrow> context\<lparr>error := Some err\<rparr>
                     | Inr loadOps \<Rightarrow>
                         context\<lparr>cto := Some c, ops := ROA_concat (ops context) loadOps\<rparr>))))"

definition reduceExpressionChain ::
  "(tsExpression \<Rightarrow> ParseError + Symbol)
   \<Rightarrow> ('scope \<Rightarrow> Symbol \<Rightarrow> 'scope CompileTimeObject option)
   \<Rightarrow> 'scope ExpressionChainContext \<times> object_id \<Rightarrow> tsExpression
   \<Rightarrow> 'scope ExpressionChainContext \<times> object_id" where
  "reduceExpressionChain parseSymbol resolve state n =
     (let (context, next) = state in
      if error context \<noteq> None then (context, next)
      else case n of
          BigIntLiteral v \<Rightarrow> reduceBigIntLitera next context v
        | FalseKeyword \<Rightarrow> reduceBooleanLiteral next context False
        | Identifier _ \<Rightarrow> (reduceIdentifier parseSymbol resolve context n, next)
        | NullKeyword \<Rightarrow> reduceNullLiteral next context
        | NumericLiteral v \<Rightarrow> reduceNumericLiteral next context n v
        | StringLiteral v \<Rightarrow> reduceStringLiteral next context v
        | TrueKeyword \<Rightarrow> reduceBooleanLiteral next context True
        | OtherExpression _ _ \<Rightarrow>
            (context\<lparr>error := Some (makeParseError n
               (''reduceChainContext '' @ getKindName n @ '' not implemented''))\<rparr>, next))"

text \<open>
  \<open>makeExpressionChain\<close>: the node, with the expressions inside it in front of it, the
  innermost first.
\<close>

fun makeChain :: "tsExpression \<Rightarrow> tsExpression list \<Rightarrow> tsExpression list" where
  "makeChain (OtherExpression k (Some e)) rest = makeChain e (OtherExpression k (Some e) # rest)"
| "makeChain h rest = h # rest"

definition makeExpressionChain :: "tsExpression \<Rightarrow> tsExpression list" where
  "makeExpressionChain n = makeChain n []"

definition parseExpression ::
  "(tsExpression \<Rightarrow> ParseError + Symbol)
   \<Rightarrow> ('scope \<Rightarrow> Symbol \<Rightarrow> 'scope CompileTimeObject option)
   \<Rightarrow> object_id \<Rightarrow> 'scope \<Rightarrow> tsExpression
   \<Rightarrow> (ParseError + Operation list) \<times> object_id" where
  "parseExpression parseSymbol resolve next s n =
     (let chain = makeExpressionChain n;
          (endTarget0, next) = newOperation next Noop;
          context = \<lparr>scope = s, endTarget = endTarget0, ops = [], cto = None, error = None\<rparr>;
          (result, next) = foldl (reduceExpressionChain parseSymbol resolve) (context, next) chain
      in case error result of
           Some err \<Rightarrow> (Inl err, next)
         | None \<Rightarrow>
             (let hasEndJumps =
                    (filter (\<lambda>op. targetOf op = Some (obj (endTarget context)))
                       (filter isJumpTargetOp (ops result)) \<noteq> []);
                  operations = (if hasEndJumps then ROA_append (endTarget context) (ops result)
                                else ops result)
              in (Inr operations, next)))"

section \<open>The compile pipeline of compiler.ts\<close>

subsection \<open>Syntax nodes, types and thrown values\<close>

text \<open>
  What a diagnostic reads from a syntax node: its position, its end, the source file it
  is in and its printed text.
\<close>

record tsNode =
  getPos :: int
  getEnd :: int
  getSourceFile :: string
  print :: string

text \<open>
  A thrown value is a \<open>CompileError\<close> with its message and node, another \<open>Error\<close> with its
  message, or a value that is no \<open>Error\<close>.
\<close>

datatype thrown = CompileError string tsNode | JsError string | NoError

text \<open>
  A type of the type checker, as far as the compiler looks at it: its text and its
  flags. \<open>checkFlags\<close> is the bitwise and of the flags with a mask, which a condition
  reads as true when it is not 0. \<open>TypeFlags_VoidLike\<close> is the mask
  \<open>ts.TypeFlags.VoidLike\<close> of the TypeScript compiler, the flags \<open>Void\<close> and
  \<open>Undefined\<close>.
\<close>

record tsType =
  getText :: string
  getFlags :: int

definition TypeFlags_VoidLike :: int where
  "TypeFlags_VoidLike = 49152"

definition checkFlags :: "tsType \<Rightarrow> int \<Rightarrow> int" where
  "checkFlags t flags = getFlags t AND flags"

definition isVoidLike :: "tsType \<Rightarrow> int" where
  "isVoidLike t = checkFlags t TypeFlags_VoidLike"

record ParameterDeclaration =
  parameterName :: string
  parameterType :: tsType

text \<open>
  The body of a function declaration: whether it is a statement, the name of its kind,
  and its node.
\<close>

record tsBody =
  isStatement :: bool
  bodyKindName :: string
  bodyNode :: tsNode

record FunctionDeclaration =
  getName_fd :: "string option"
  hasExportKeyword :: bool
  getParameters :: "ParameterDeclaration list"
  getReturnType :: tsType
  getBody :: "tsBody option"

text \<open>
  \<open>getNameOrThrow\<close> and \<open>getBodyOrThrow\<close> of ts-morph throw an error when there is none;
  the messages are those of ts-morph.
\<close>

definition getNameOrThrow :: "FunctionDeclaration \<Rightarrow> thrown + string" where
  "getNameOrThrow f =
     (case getName_fd f of None \<Rightarrow> Inl (JsError ''Expected to have a name.'') | Some n \<Rightarrow> Inr n)"

definition getBodyOrThrow :: "FunctionDeclaration \<Rightarrow> thrown + tsBody" where
  "getBodyOrThrow f =
     (case getBody f of None \<Rightarrow> Inl (JsError ''Expected to find the node's body.'') | Some b \<Rightarrow> Inr b)"

subsection \<open>Contract types\<close>

text \<open>
  \<open>sc.ContractParamType\<close> of neon-core, and the \<open>ContractType\<close> of \<open>contractType.ts\<close>.
  That file is not among the sources: the kinds and primitive types are those the
  switch of \<open>convertContractType\<close> names, and one more of each stands for any value the
  switch does not name, with the text the error message prints for it.
\<close>

datatype ContractParamType =
    ParamAny | ParamBoolean | ParamInteger | ParamByteArray | ParamString | ParamHash160
  | ParamHash256 | ParamPublicKey | ParamSignature | ParamArray | ParamMap
  | ParamInteropInterface | ParamVoid

datatype PrimitiveType =
    Address | Boolean | ByteArray | Hash160 | Hash256 | Integer | PublicKey | Signature
  | String | UnrecognizedPrimitive string

datatype ContractType =
    ArrayType | InteropType | MapType | StructType | UnspecifiedType
  | Primitive PrimitiveType | UnrecognizedKind string

fun convertContractType :: "ContractType \<Rightarrow> thrown + ContractParamType" where
  "convertContractType ArrayType = Inr ParamArray"
| "convertContractType InteropType = Inr ParamInteropInterface"
| "convertContractType MapType = Inr ParamMap"
| "convertContractType StructType = Inr ParamArray"
| "convertContractType UnspecifiedType = Inr ParamAny"
| "convertContractType (Primitive Address) = Inr ParamHash160"
| "convertContractType (Primitive Boolean) = Inr ParamBoolean"
| "convertContractType (Primitive ByteArray) = Inr ParamByteArray"
| "convertContractType (Primitive Hash160) = Inr ParamHash160"
| "convertContractType (Primitive Hash256) = Inr ParamHash256"
| "convertContractType (Primitive Integer) = Inr ParamInteger"
| "convertContractType (Primitive PublicKey) = Inr ParamPublicKey"
| "convertContractType (Primitive Signature) = Inr ParamSignature"
| "convertContractType (Primitive String) = Inr ParamString"
| "convertContractType (Primitive (UnrecognizedPrimitive p)) =
     Inl (JsError (''Unrecognized PrimitiveType '' @ p))"
| "convertContractType (UnrecognizedKind k) =
     Inl (JsError (''Unrecognized ContractTypeKind '' @ k))"

text \<open>
  \<open>convertContractType\<close> on a type of the type checker converts it with
  \<open>tsTypeToContractType\<close> first. That function is in \<open>contractType.ts\<close>; it is a
  parameter, and may throw.
\<close>

definition convertContractType_tsType ::
  "(tsType \<Rightarrow> thrown + ContractType) \<Rightarrow> tsType \<Rightarrow> thrown + ContractParamType" where
  "convertContractType_tsType tsTypeToContractType t =
     (case tsTypeToContractType t of
        Inl err \<Rightarrow> Inl err
      | Inr ct \<Rightarrow> convertContractType ct)"

text \<open>\<open>xs.map(f)\<close> where \<open>f\<close> may throw: the first throw ends the map.\<close>

fun mapOrThrow :: "('a \<Rightarrow> thrown + 'b) \<Rightarrow> 'a list \<Rightarrow> thrown + 'b list" where
  "mapOrThrow f [] = Inr []"
| "mapOrThrow f (x # xs) =
     (case f x of
        Inl err \<Rightarrow> Inl err
      | Inr y \<Rightarrow> (case mapOrThrow f xs of Inl err \<Rightarrow> Inl err | Inr ys \<Rightarrow> Inr (y # ys)))"

subsection \<open>toMethodDef and toDebugInfoMethod\<close>

text \<open>
  The object \<open>toMethodDef\<close> builds a \<open>sc.ContractMethodDefinition\<close> from. A field that an
  object may lack is an option; \<open>toMethodDef\<close> gives every field.
\<close>

record ContractParameterDefinition =
  cpName :: string
  cpType :: ContractParamType

record ContractMethodDefinition =
  mdName :: string
  mdOffset :: nat
  mdParameters :: "ContractParameterDefinition list"
  mdReturnType :: "ContractParamType option"



definition toMethodDef ::
  "(tsType \<Rightarrow> thrown + ContractType) \<Rightarrow> FunctionDeclaration \<Rightarrow> nat
   \<Rightarrow> thrown + ContractMethodDefinition option" where
  "toMethodDef tsTypeToContractType f off =
     (if \<not> hasExportKeyword f then Inr None
      else
        (let returnType = getReturnType f in
         case getNameOrThrow f of
           Inl err \<Rightarrow> Inl err
         | Inr n \<Rightarrow>
             (case mapOrThrow
                     (\<lambda>p. case convertContractType_tsType tsTypeToContractType (parameterType p) of
                             Inl err \<Rightarrow> Inl err
                           | Inr ty \<Rightarrow> Inr \<lparr>cpName = parameterName p, cpType = ty\<rparr>)
                     (getParameters f) of
                Inl err \<Rightarrow> Inl err
              | Inr ps \<Rightarrow>
                  (case (if isVoidLike returnType \<noteq> 0 then Inr ParamVoid
                         else convertContractType_tsType tsTypeToContractType returnType) of
                     Inl err \<Rightarrow> Inl err
                   | Inr rt \<Rightarrow>
                       Inr (Some \<lparr>mdName = n, mdOffset = off, mdParameters = ps,
                                  mdReturnType = Some rt\<rparr>)))))"


text \<open>
  Modelled from the spec: the class \<open>ScriptBuilder\<close>, which is not among the sources. A
  script builder holds the ordered sequence of its instructions, each an opcode with its
  operand and, optionally, a sequence point, as \<open>dumpOperations\<close> reads them; \<open>push\<close>
  appends an instruction. Its method \<open>compile\<close>, which from the builder and the offset
  of the method gives the script and the sequence points or throws, is a parameter of
  the functions that call it.
\<close>

datatype OpCode = INITSLOT | OtherOpCode nat

record BuilderInstruction =
  opCode :: OpCode
  operand :: "nat list"
  sequencePoint :: "tsNode option"

type_synonym ScriptBuilder = "BuilderInstruction list"

definition ScriptBuilder_push :: "ScriptBuilder \<Rightarrow> OpCode \<Rightarrow> nat list \<Rightarrow> ScriptBuilder" where
  "ScriptBuilder_push builder oc operands =
     builder @ [\<lparr>opCode = oc, operand = operands, sequencePoint = None\<rparr>]"

record SequencePoint =
  spAddress :: nat
  spNode :: tsNode

text \<open>
  An operation context; its field \<open>parent\<close>, the compilation context it belongs to, is
  left out, as nothing below reads it.
\<close>

record OperationContext =
  ocName :: string
  isPublic :: bool
  ocNode :: FunctionDeclaration
  builder :: ScriptBuilder

record DebugInfoParameter =
  dpName :: string
  dpIndex :: nat
  dpType :: ContractType

record DebugInfoMethod =
  dmName :: string
  rangeStart :: int
  rangeEnd :: int
  dmParameters :: "DebugInfoParameter list"
  dmReturnType :: "ContractType option"
  dmSequencePoints :: "SequencePoint list"

definition toDebugInfoMethod ::
  "(tsType \<Rightarrow> thrown + ContractType) \<Rightarrow> OperationContext \<Rightarrow> nat \<Rightarrow> nat
   \<Rightarrow> SequencePoint list \<Rightarrow> thrown + DebugInfoMethod" where
  "toDebugInfoMethod tsTypeToContractType oc off len sequencePoints =
     (case mapOrThrow
             (\<lambda>(p, index). case tsTypeToContractType (parameterType p) of
                     Inl err \<Rightarrow> Inl err
                   | Inr ty \<Rightarrow> Inr \<lparr>dpName = parameterName p, dpIndex = index, dpType = ty\<rparr>)
             (zip (getParameters (ocNode oc)) [0 ..< length (getParameters (ocNode oc))]) of
        Inl err \<Rightarrow> Inl err
      | Inr ps \<Rightarrow>
          (let returnType = getReturnType (ocNode oc) in
           case (if isVoidLike returnType \<noteq> 0 then Inr None
                 else map_sum id Some (tsTypeToContractType returnType)) of
             Inl err \<Rightarrow> Inl err
           | Inr rt \<Rightarrow>
               Inr \<lparr>dmName = ocName oc, rangeStart = int off,
                    rangeEnd = int off + int len - 1, dmParameters = ps,
                    dmReturnType = rt, dmSequencePoints = sequencePoints\<rparr>))"

subsection \<open>The compilation context\<close>

datatype DiagnosticCategory =
  CategoryWarning | CategoryError | CategorySuggestion | CategoryMessage

record Diagnostic =
  category :: DiagnosticCategory
  diagCode :: int
  diagFile :: "string option"
  diagLength :: "int option"
  messageText :: string
  diagStart :: "int option"
  diagSource :: "string option"

datatype VmCall = SysCall string

record Builtins =
  variables :: "Symbol \<rightharpoonup> Symbol"
  interfaces :: "Symbol \<rightharpoonup> (Symbol \<rightharpoonup> VmCall list)"

text \<open>The children of a source file that the passes look at.\<close>

record InterfaceDeclaration =
  interfaceSymbol :: "Symbol option"
  memberSymbols :: "Symbol option list"

record VariableDeclaration =
  declarationSymbol :: "Symbol option"
  typeSymbol :: "Symbol option"

datatype tsChild =
    InterfaceDeclarationNode InterfaceDeclaration
  | VariableStatementNode "VariableDeclaration list"
  | FunctionDeclarationNode FunctionDeclaration
  | OtherNode

record SourceFile =
  isDeclarationFile :: bool
  children :: "tsChild list"

type_synonym Project = "SourceFile list"

record CompileOptions =
  project :: Project
  optimize :: "bool option"
  inline :: "bool option"
  addressVersion :: "nat option"

record RequiredOptions =
  addressVersion' :: nat
  inline' :: bool
  optimize' :: bool

text \<open>
  The artifacts. \<open>sc.NEF\<close>, \<open>sc.ContractManifest\<close> and \<open>sc.ContractAbi\<close> are classes of
  neon-core: an object of them is the record of what the compiler passes to the
  constructor. The checksum of a NEF and the hash \<open>u.hash160\<close> are parameters.
\<close>

record NEF =
  nefCompiler :: string
  nefScript :: "byte list"

record ContractManifest =
  manifestName :: string
  abiMethods :: "ContractMethodDefinition list"

record DebugInfo =
  contractHash :: string
  checksum :: nat
  debugMethods :: "DebugInfoMethod list"

record CompilationArtifacts =
  nef :: NEF
  manifest :: ContractManifest
  debugInfo :: DebugInfo

record CompilationContext =
  ctxProject :: Project
  ctxOptions :: RequiredOptions
  ctxName :: "string option"
  builtins :: "Builtins option"
  operations :: "OperationContext list option"
  diagnostics :: "Diagnostic list"
  artifacts :: "CompilationArtifacts option"

text \<open>
  The functions of other modules that the passes call: \<open>tsTypeToContractType\<close>,
  \<open>convertStatement\<close>, which emits the instructions of a statement into the builder of
  an operation context (it returns the builder as it leaves it, and what it throws, if
  it throws), \<open>ScriptBuilder.compile\<close>, the checksum of a NEF and \<open>u.hash160\<close>.
\<close>

record Externals =
  tsTypeToContractType :: "tsType \<Rightarrow> thrown + ContractType"
  convertStatement :: "tsBody \<Rightarrow> OperationContext \<Rightarrow> ScriptBuilder \<times> thrown option"
  builderCompile :: "ScriptBuilder \<Rightarrow> nat \<Rightarrow> thrown + (byte list \<times> SequencePoint list)"
  nefChecksum :: "NEF \<Rightarrow> nat"
  hash160 :: "byte list \<Rightarrow> string"

text \<open>
  A pass works on the context in place and may throw: it gives the context as it leaves
  it and what it throws, if it throws.
\<close>

type_synonym CompilePass = "CompilationContext \<Rightarrow> CompilationContext \<times> thrown option"

text \<open>\<open>context.operations ?? []\<close>.\<close>

definition operationsOf :: "CompilationContext \<Rightarrow> OperationContext list" where
  "operationsOf context = (case operations context of None \<Rightarrow> [] | Some xs \<Rightarrow> xs)"

subsection \<open>resolveDeclarationsPass\<close>

definition DEFAULT_ADDRESS_VALUE :: nat where
  "DEFAULT_ADDRESS_VALUE = 53"

definition storageBuiltin :: "string \<rightharpoonup> VmCall list" where
  "storageBuiltin =
     [''currentContext'' \<mapsto> [SysCall ''System.Storage.GetContext''],
      ''get'' \<mapsto> [SysCall ''System.Storage.Get''],
      ''put'' \<mapsto> [SysCall ''System.Storage.Put'']]"

definition builtinInterfaces :: "string \<rightharpoonup> (string \<rightharpoonup> VmCall list)" where
  "builtinInterfaces = [''StorageConstructor'' \<mapsto> storageBuiltin]"

text \<open>
  The loop over the members of an interface: \<open>None\<close> when a member has no symbol, where
  the callback returns before it sets the interface.
\<close>

fun collectMembers ::
  "(string \<rightharpoonup> VmCall list) \<Rightarrow> Symbol option list \<Rightarrow> (Symbol \<rightharpoonup> VmCall list)
   \<Rightarrow> (Symbol \<rightharpoonup> VmCall list) option" where
  "collectMembers iface [] members = Some members"
| "collectMembers iface (None # rest) members = None"
| "collectMembers iface (Some memberSymbol # rest) members =
     (case iface (getName memberSymbol) of
        None \<Rightarrow> collectMembers iface rest members
      | Some calls \<Rightarrow>
          (if length calls > 0 then collectMembers iface rest (members(memberSymbol \<mapsto> calls))
           else collectMembers iface rest members))"

fun collectVariables ::
  "VariableDeclaration list \<Rightarrow> (Symbol \<rightharpoonup> Symbol) \<Rightarrow> (Symbol \<rightharpoonup> Symbol)" where
  "collectVariables [] vars = vars"
| "collectVariables (decl # rest) vars =
     (case (declarationSymbol decl, typeSymbol decl) of
        (Some sy, Some ty) \<Rightarrow> collectVariables rest (vars(sy \<mapsto> ty))
      | _ \<Rightarrow> collectVariables rest vars)"

fun resolveChild :: "Builtins \<Rightarrow> tsChild \<Rightarrow> Builtins" where
  "resolveChild b (InterfaceDeclarationNode d) =
     (case interfaceSymbol d of
        None \<Rightarrow> b
      | Some sy \<Rightarrow>
          (case builtinInterfaces (getName sy) of
             None \<Rightarrow> b
           | Some iface \<Rightarrow>
               (case collectMembers iface (memberSymbols d) Map.empty of
                  None \<Rightarrow> b
                | Some members \<Rightarrow> b\<lparr>interfaces := (interfaces b)(sy \<mapsto> members)\<rparr>)))"
| "resolveChild b (VariableStatementNode decls) =
     b\<lparr>variables := collectVariables decls (variables b)\<rparr>"
| "resolveChild b _ = b"

definition resolveSourceFile :: "Builtins \<Rightarrow> SourceFile \<Rightarrow> Builtins" where
  "resolveSourceFile b src =
     (if \<not> isDeclarationFile src then b else foldl resolveChild b (children src))"

definition resolveDeclarationsPass :: CompilePass where
  "resolveDeclarationsPass context =
     (let b = foldl resolveSourceFile \<lparr>variables = Map.empty, interfaces = Map.empty\<rparr>
                (ctxProject context)
      in (context\<lparr>builtins := Some b\<rparr>, None))"

subsection \<open>processFunctionsPass\<close>

text \<open>
  The callback of \<open>forEachChild\<close> on one child, and the two loops around it; a throw
  ends both loops.
\<close>

definition processFunction ::
  "Externals \<Rightarrow> CompilationContext \<Rightarrow> FunctionDeclaration
   \<Rightarrow> CompilationContext \<times> thrown option" where
  "processFunction ext context f =
     (case getName_fd f of
        None \<Rightarrow> (context, None)
      | Some n \<Rightarrow>
          (let opCtx = \<lparr>ocName = n, isPublic = hasExportKeyword f, ocNode = f, builder = []\<rparr>;
               operations0 = operationsOf context;
               setBuilder = (\<lambda>b. context\<lparr>operations :=
                               Some (operations0 @ [opCtx\<lparr>builder := b\<rparr>])\<rparr>);
               paramCount = length (getParameters f);
               localCount = (0 :: nat);
               opCtx = (if localCount > 0 \<or> paramCount > 0
                        then opCtx\<lparr>builder :=
                               ScriptBuilder_push (builder opCtx) INITSLOT [localCount, paramCount]\<rparr>
                        else opCtx)
           in case getBodyOrThrow f of
                Inl err \<Rightarrow> (setBuilder (builder opCtx), Some err)
              | Inr body \<Rightarrow>
                  (if isStatement body then
                     (let (b, err) = convertStatement ext body opCtx in (setBuilder b, err))
                   else
                     (setBuilder (builder opCtx),
                      Some (CompileError (''Unexpected body kind '' @ bodyKindName body)
                              (bodyNode body))))))"

fun processChildren ::
  "Externals \<Rightarrow> CompilationContext \<Rightarrow> tsChild list \<Rightarrow> CompilationContext \<times> thrown option" where
  "processChildren ext context [] = (context, None)"
| "processChildren ext context (FunctionDeclarationNode f # rest) =
     (case processFunction ext context f of
        (context', Some err) \<Rightarrow> (context', Some err)
      | (context', None) \<Rightarrow> processChildren ext context' rest)"
| "processChildren ext context (_ # rest) = processChildren ext context rest"

fun processSourceFiles ::
  "Externals \<Rightarrow> CompilationContext \<Rightarrow> SourceFile list \<Rightarrow> CompilationContext \<times> thrown option" where
  "processSourceFiles ext context [] = (context, None)"
| "processSourceFiles ext context (src # rest) =
     (if isDeclarationFile src then processSourceFiles ext context rest
      else case processChildren ext context (children src) of
             (context', Some err) \<Rightarrow> (context', Some err)
           | (context', None) \<Rightarrow> processSourceFiles ext context' rest)"

definition processFunctionsPass :: "Externals \<Rightarrow> CompilePass" where
  "processFunctionsPass ext context = processSourceFiles ext context (ctxProject context)"



subsection \<open>collectArtifactsPass\<close>

record MethodInfo =
  methodDef :: "ContractMethodDefinition option"
  debug :: DebugInfoMethod

text \<open>The loop over the operations: the script and the methods so far, or a throw.\<close>

fun collectMethods ::
  "Externals \<Rightarrow> OperationContext list \<Rightarrow> byte list \<Rightarrow> MethodInfo list
   \<Rightarrow> thrown + (byte list \<times> MethodInfo list)" where
  "collectMethods ext [] fullScript methods = Inr (fullScript, methods)"
| "collectMethods ext (oc # rest) fullScript methods =
     (case builderCompile ext (builder oc) (length fullScript) of
        Inl err \<Rightarrow> Inl err
      | Inr (script, sequencePoints) \<Rightarrow>
          (case toMethodDef (tsTypeToContractType ext) (ocNode oc) (length fullScript) of
             Inl err \<Rightarrow> Inl err
           | Inr md \<Rightarrow>
               (case toDebugInfoMethod (tsTypeToContractType ext) oc (length fullScript)
                       (length script) sequencePoints of
                  Inl err \<Rightarrow> Inl err
                | Inr dbg \<Rightarrow>
                    collectMethods ext rest (fullScript @ script)
                      (methods @ [\<lparr>methodDef = md, debug = dbg\<rparr>]))))"


definition isNotNullOrUndefined :: "'a option \<Rightarrow> bool" where
  "isNotNullOrUndefined input = (input \<noteq> None)"

definition collectArtifactsPass :: "Externals \<Rightarrow> CompilePass" where
  "collectArtifactsPass ext context =
     (let name = (case ctxName context of None \<Rightarrow> ''Test Contract'' | Some n \<Rightarrow> n)
      in case collectMethods ext (operationsOf context) [] [] of
           Inl err \<Rightarrow> (context, Some err)
         | Inr (fullScript, methods) \<Rightarrow>
             (let nef0 = \<lparr>nefCompiler = ''neo-devpack-ts'', nefScript = fullScript\<rparr>;
                  manifest0 = \<lparr>manifestName = name,
                     abiMethods = map the (filter isNotNullOrUndefined (map methodDef methods))\<rparr>;
                  debugInfo0 = \<lparr>contractHash = hash160 ext (nefScript nef0),
                     checksum = nefChecksum ext nef0,
                     debugMethods = map debug methods\<rparr>
              in (context\<lparr>artifacts :=
                    Some \<lparr>nef = nef0, manifest = manifest0, debugInfo = debugInfo0\<rparr>\<rparr>, None)))"

subsection \<open>compile\<close>

text \<open>The diagnostic the \<open>catch\<close> block of \<open>compile\<close> pushes for a thrown value.\<close>

definition thrownDiagnostic :: "thrown \<Rightarrow> Diagnostic" where
  "thrownDiagnostic err =
     (let messageText0 = (case err of CompileError m _ \<Rightarrow> m | JsError m \<Rightarrow> m
                          | NoError \<Rightarrow> ''unknown error'');
          node0 = (case err of CompileError _ n \<Rightarrow> Some n | _ \<Rightarrow> None)
      in \<lparr>category = CategoryError,
          diagCode = 0,
          diagFile = map_option getSourceFile node0,
          diagLength = map_option (\<lambda>n. getEnd n - getPos n) node0,
          messageText = messageText0,
          diagStart = map_option getPos node0,
          diagSource = map_option print node0\<rparr>)"

definition hasErrorDiagnostic :: "CompilationContext \<Rightarrow> bool" where
  "hasErrorDiagnostic context =
     list_ex (\<lambda>d. category d = CategoryError) (diagnostics context)"

text \<open>One turn of the loop up to the test: the pass in its \<open>try\<close>, and the \<open>catch\<close>.\<close>

definition tryPass :: "CompilePass \<Rightarrow> CompilationContext \<Rightarrow> CompilationContext" where
  "tryPass pass context =
     (case pass context of
        (context', None) \<Rightarrow> context'
      | (context', Some err) \<Rightarrow>
          context'\<lparr>diagnostics := diagnostics context' @ [thrownDiagnostic err]\<rparr>)"

fun runPasses :: "CompilePass list \<Rightarrow> CompilationContext \<Rightarrow> CompilationContext" where
  "runPasses [] context = context"
| "runPasses (pass # rest) context =
     (let context' = tryPass pass context
      in if hasErrorDiagnostic context' then context' else runPasses rest context')"

record CompileResults =
  resultDiagnostics :: "Diagnostic list"
  resultArtifacts :: "CompilationArtifacts option"
  resultContext :: CompilationContext

definition initialContext :: "CompileOptions \<Rightarrow> CompilationContext" where
  "initialContext options =
     \<lparr>ctxProject = project options,
      ctxOptions = \<lparr>addressVersion' = (case addressVersion options of
                                          None \<Rightarrow> DEFAULT_ADDRESS_VALUE | Some a \<Rightarrow> a),
                    inline' = (case inline options of None \<Rightarrow> False | Some b \<Rightarrow> b),
                    optimize' = (case optimize options of None \<Rightarrow> False | Some b \<Rightarrow> b)\<rparr>,
      ctxName = None, builtins = None, operations = None,
      diagnostics = [], artifacts = None\<rparr>"

definition passes :: "Externals \<Rightarrow> CompilePass list" where
  "passes ext = [resolveDeclarationsPass, processFunctionsPass ext, collectArtifactsPass ext]"

definition compile :: "Externals \<Rightarrow> CompileOptions \<Rightarrow> CompileResults" where
  "compile ext options =
     (let context = runPasses (passes ext) (initialContext options)
      in \<lparr>resultDiagnostics = diagnostics context,
          resultArtifacts = artifacts context,
          resultContext = context\<rparr>)"


subsection \<open>Sample inputs\<close>

text \<open>
  Concrete inputs for the statements below: the type \<open>void\<close>, a type conversion that
  gives every type the kind Unspecified, externals that emit nothing, an exported
  function \<open>main\<close> with no parameters, an empty body and return type \<open>void\<close>, a function
  \<open>helper\<close> of the same shape without the export keyword, an exported function without a
  body, an exported function without a name, and projects of one source file.
\<close>

definition sampleVoid :: tsType where
  "sampleVoid = \<lparr>getText = ''void'', getFlags = 16384\<rparr>"

definition sampleTypeConversion :: "tsType \<Rightarrow> thrown + ContractType" where
  "sampleTypeConversion t = Inr UnspecifiedType"




definition sampleBodyless :: FunctionDeclaration where
  "sampleBodyless = \<lparr>getName_fd = Some ''main'', hasExportKeyword = True, getParameters = [],
                     getReturnType = sampleVoid, getBody = None\<rparr>"


definition sampleConvertStatement ::
  "tsBody \<Rightarrow> OperationContext \<Rightarrow> ScriptBuilder \<times> thrown option" where
  "sampleConvertStatement body oc = (builder oc, None)"

definition sampleBuilderCompile ::
  "ScriptBuilder \<Rightarrow> nat \<Rightarrow> thrown + (byte list \<times> SequencePoint list)" where
  "sampleBuilderCompile b off = Inr ([], [])"

definition sampleChecksum :: "NEF \<Rightarrow> nat" where
  "sampleChecksum n = 0"

definition sampleHash160 :: "byte list \<Rightarrow> string" where
  "sampleHash160 script = []"

definition sampleExternals :: Externals where
  "sampleExternals =
     \<lparr>tsTypeToContractType = sampleTypeConversion,
      convertStatement = sampleConvertStatement,
      builderCompile = sampleBuilderCompile,
      nefChecksum = sampleChecksum,
      hash160 = sampleHash160\<rparr>"

definition sampleOptions :: "FunctionDeclaration list \<Rightarrow> CompileOptions" where
  "sampleOptions fs =
     \<lparr>project = [\<lparr>isDeclarationFile = False, children = map FunctionDeclarationNode fs\<rparr>],
      optimize = None, inline = None, addressVersion = None\<rparr>"

section \<open>Properties of the integer codec\<close>

lemma hexVal_hexDigit: "d < 16 \<Longrightarrow> hexVal (hexDigit d) = Some d"
  by (auto simp: hexVal_def hexDigit_def Let_def)

lemma hexVal_zero: "hexVal CHR ''0'' = Some 0"
  by (simp add: hexVal_def)

lemma natToString16_valid: "c \<in> set (natToString16 n) \<Longrightarrow> hexVal c \<noteq> None"
proof (induction n arbitrary: c rule: natToString16.induct)
  case (1 n)
  show ?case
  proof (cases "n < 16")
    case True
    with "1.prems" show ?thesis
      by (simp add: natToString16.simps [of n] hexVal_hexDigit)
  next
    case False
    with "1.prems" have "c \<in> set (natToString16 (n div 16)) \<or> c = hexDigit (n mod 16)"
      by (auto simp: natToString16.simps [of n])
    then show ?thesis
      using "1.IH" [OF False] by (auto simp: hexVal_hexDigit)
  qed
qed

lemma natToString16_step:
  assumes "256 \<le> n"
  shows "natToString16 n =
         natToString16 (n div 256) @ [hexDigit (n div 16 mod 16), hexDigit (n mod 16)]"
proof -
  have a: "\<not> n < 16" and b: "\<not> n div 16 < 16" using assms by auto
  have c: "n div 16 div 16 = n div 256" by (simp add: div_mult2_eq)
  show ?thesis
    using a b c by (simp add: natToString16.simps [of n] natToString16.simps [of "n div 16"])
qed

lemma toBuffer_nat: "toBuffer (int n) = Buffer_from_hex (padEven (natToString16 n))"
  by (simp add: toBuffer_def toString16_def Let_def)

lemma padEven_even: "even (length (padEven s))"
  by (auto simp: padEven_def)

lemma padEven_valid: "(\<forall>c \<in> set s. hexVal c \<noteq> None) \<Longrightarrow> c \<in> set (padEven s) \<Longrightarrow> hexVal c \<noteq> None"
  by (auto simp: padEven_def hexVal_zero split: if_splits)

lemma padEven_step:
  "256 \<le> n \<Longrightarrow> padEven (natToString16 n) =
     padEven (natToString16 (n div 256)) @ [hexDigit (n div 16 mod 16), hexDigit (n mod 16)]"
  by (simp add: natToString16_step padEven_def)

lemma Buffer_from_hex_append:
  "even (length s) \<Longrightarrow> (\<forall>c \<in> set s. hexVal c \<noteq> None) \<Longrightarrow>
   Buffer_from_hex (s @ t) = Buffer_from_hex s @ Buffer_from_hex t"
proof (induction s rule: Buffer_from_hex.induct)
  case (1 a b rest)
  then show ?case by (auto split: option.splits)
qed simp_all

lemma Buffer_from_hex_pair:
  "h < 16 \<Longrightarrow> l < 16 \<Longrightarrow> Buffer_from_hex [hexDigit h, hexDigit l] = [of_nat (16 * h + l)]"
  by (simp add: hexVal_hexDigit)

lemma toBuffer_small: "n < 256 \<Longrightarrow> toBuffer (int n) = [of_nat n]"
proof (cases "n < 16")
  case True
  then show ?thesis
    by (simp add: toBuffer_nat natToString16.simps [of n] padEven_def hexVal_zero hexVal_hexDigit)
next
  case False
  assume "n < 256"
  with False have "n div 16 < 16" "\<not> n < 16" by auto
  then show ?thesis
    by (simp add: toBuffer_nat natToString16.simps [of n] natToString16.simps [of "n div 16"]
        padEven_def hexVal_hexDigit)
qed

lemma toBuffer_magnitude_be: "toBuffer (int n) = magnitude_be n"
proof (induction n rule: magnitude_be.induct)
  case (1 n)
  show ?case
  proof (cases "n < 256")
    case True
    then show ?thesis by (simp add: toBuffer_small magnitude_be.simps [of n])
  next
    case False
    then have ge: "256 \<le> n" by simp
    have ev: "even (length (padEven (natToString16 (n div 256))))" by (rule padEven_even)
    have va: "\<forall>c \<in> set (padEven (natToString16 (n div 256))). hexVal c \<noteq> None"
      using padEven_valid natToString16_valid by blast
    have "toBuffer (int n) =
          Buffer_from_hex (padEven (natToString16 (n div 256)))
          @ Buffer_from_hex [hexDigit (n div 16 mod 16), hexDigit (n mod 16)]"
      by (simp only: toBuffer_nat padEven_step [OF ge] Buffer_from_hex_append [OF ev va])
    also have "Buffer_from_hex [hexDigit (n div 16 mod 16), hexDigit (n mod 16)]
               = [of_nat (16 * (n div 16 mod 16) + n mod 16)]"
      by (rule Buffer_from_hex_pair) auto
    also have "16 * (n div 16 mod 16) + n mod 16 = n mod 256"
      using mod_mult2_eq [of n 16 16] by simp
    finally show ?thesis
      using "1.IH" [OF False] False
      by (simp add: toBuffer_nat magnitude_be.simps [of n])
  qed
qed


lemma hexDigitsValue_append:
  "hexDigitsValue acc (s @ t) =
     (case hexDigitsValue acc s of None \<Rightarrow> None | Some a \<Rightarrow> hexDigitsValue a t)"
  by (induction s arbitrary: acc) (auto split: option.splits)

lemma hexDigitsValue_byte:
  "hexDigitsValue acc [hexDigit (unat b div 16), hexDigit (unat b mod 16)]
   = Some (256 * acc + unat (b :: byte))"
proof -
  have "unat b < 2 ^ LENGTH(8)" by (rule unsigned_less)
  then have "unat b < 256" by simp
  then have "unat b div 16 < 16" by simp
  then show ?thesis by (simp add: hexVal_hexDigit)
qed

lemma hexDigitsValue_Buffer_toString_hex:
  "hexDigitsValue acc (Buffer_toString_hex bs) = Some (foldl (\<lambda>acc b. 256 * acc + unat b) acc bs)"
proof (induction bs arbitrary: acc)
  case Nil
  then show ?case by (simp add: Buffer_toString_hex_def)
next
  case (Cons b bs)
  have "Buffer_toString_hex (b # bs)
        = [hexDigit (unat b div 16), hexDigit (unat b mod 16)] @ Buffer_toString_hex bs"
    by (simp add: Buffer_toString_hex_def)
  then show ?case
    using Cons.IH by (simp only: hexDigitsValue_append hexDigitsValue_byte option.case foldl_Cons)
qed

lemma Buffer_toString_hex_Nil_iff: "Buffer_toString_hex bs = [] \<longleftrightarrow> bs = []"
  by (cases bs) (simp_all add: Buffer_toString_hex_def)

lemma toBigInt_magnitude_value:
  "toBigInt bs = (if bs = [] then Inl SyntaxError else Inr (int (magnitude_value bs)))"
  by (simp add: toBigInt_def BigInt_0x_def Buffer_toString_hex_Nil_iff
      hexDigitsValue_Buffer_toString_hex magnitude_value_def)

lemma invertLoop_map_aux:
  "i \<le> length buffer \<Longrightarrow>
   invertLoop i (length buffer) buffer = take i buffer @ map (\<lambda>b. b XOR 0xff) (drop i buffer)"
proof (induction i "length buffer" buffer rule: invertLoop.induct)
  case (1 i buffer)
  show ?case
  proof (cases "i < length buffer")
    case True
    let ?b = "buffer[i := (buffer ! i) XOR 0xff]"
    have len: "length ?b = length buffer" by simp
    have "invertLoop i (length buffer) buffer = invertLoop (i + 1) (length ?b) ?b"
      using True by (simp add: invertLoop.simps [of i "length buffer" buffer])
    also have "\<dots> = take (i + 1) ?b @ map (\<lambda>b. b XOR 0xff) (drop (i + 1) ?b)"
      using "1.hyps" [OF True] True by simp
    also have "take (i + 1) ?b = take i buffer @ [(buffer ! i) XOR 0xff]"
      using True by (simp add: take_Suc_conv_app_nth)
    also have "drop (i + 1) ?b = drop (i + 1) buffer"
      by simp
    finally show ?thesis
      using True by (simp add: Cons_nth_drop_Suc [symmetric])
  next
    case False
    with "1.prems" have "i = length buffer" by simp
    then show ?thesis by (simp add: invertLoop.simps [of "length buffer" "length buffer" buffer])
  qed
qed

lemma invertLoop_map: "invertLoop 0 (length buffer) buffer = map (\<lambda>b. b XOR 0xff) buffer"
  using invertLoop_map_aux [of 0 buffer] by simp

lemma magnitude_be_not_Nil: "magnitude_be n \<noteq> []"
  by (simp add: magnitude_be.simps [of n])



lemma magnitude_value_snoc:
  "magnitude_value (bs @ [b]) = 256 * magnitude_value bs + unat b"
  by (simp add: magnitude_value_def)

lemma magnitude_value_zero_Cons: "magnitude_value (0 # bs) = magnitude_value bs"
  by (simp add: magnitude_value_def)

lemma unat_byte_of_nat: "n < 256 \<Longrightarrow> unat (of_nat n :: byte) = n"
  by (simp add: unat_of_nat)

lemma magnitude_value_magnitude_be: "magnitude_value (magnitude_be n) = n"
proof (induction n rule: magnitude_be.induct)
  case (1 n)
  show ?case
  proof (cases "n < 256")
    case True
    then show ?thesis
      by (simp add: magnitude_be.simps [of n] magnitude_value_def unat_byte_of_nat)
  next
    case False
    have "unat (of_nat (n mod 256) :: byte) = n mod 256"
      by (rule unat_byte_of_nat) simp
    with False "1.IH" show ?thesis
      by (simp add: magnitude_be.simps [of n] magnitude_value_snoc)
  qed
qed

lemma xor_ff_eq_not: "(b :: byte) XOR 0xff = NOT b"
proof -
  have "(0xff :: byte) = - 1" by simp
  then show ?thesis by (simp only: bit.xor_one_right)
qed

lemma and_0x80_eq_0_iff: "((b :: byte) AND 0x80 = 0) = (\<not> bit b 7)"
proof -
  have "(0x80 :: byte) = 2 ^ 7" by simp
  then show ?thesis by (simp only: and_exp_eq_0_iff_not_bit)
qed

lemma firstByteAnd0x80_eq_0_iff:
  "buffer \<noteq> [] \<Longrightarrow> (firstByteAnd0x80 buffer = 0) = (\<not> bit (hd buffer) 7)"
  by (cases buffer) (simp_all add: firstByteAnd0x80_def and_0x80_eq_0_iff)

lemma allBitsSet_list_all: "allBitsSet buffer = list_all (\<lambda>b. b = 0xff) buffer"
  by (induction buffer) auto

lemma bigIntToByteArray_nonneg:
  "0 \<le> v \<Longrightarrow> bigIntToByteArray v =
     Inr (rev (if firstByteAnd0x80 (magnitude_be (nat v)) \<noteq> 0
               then 0 # magnitude_be (nat v) else magnitude_be (nat v)))"
  using toBuffer_magnitude_be [of "nat v"]
  by (simp add: bigIntToByteArray_def Let_def)

lemma bigIntToByteArray_neg:
  assumes "v < 0"
  shows "bigIntToByteArray v =
     (let m = magnitude_be (nat (- v));
          m = (if allBitsSet m then 0 # m else m);
          r = magnitude_be (magnitude_value (map (\<lambda>b. b XOR 0xff) m) + 1)
      in Inr (rev (if firstByteAnd0x80 r = 0 then 0xff # r else r)))"
proof -
  have a: "toBuffer (- v) = magnitude_be (nat (- v))"
    using toBuffer_magnitude_be [of "nat (- v)"] assms by simp
  have b: "toBuffer (int n + 1) = magnitude_be (n + 1)" for n
    using toBuffer_magnitude_be [of "n + 1"] by (simp add: add.commute)
  show ?thesis
    using assms
    by (simp add: bigIntToByteArray_def a b Let_def invertLoop_map toBigInt_magnitude_value
        magnitude_be_not_Nil)
qed

lemma byteArrayToBigInt_rev:
  "buffer \<noteq> [] \<Longrightarrow> byteArrayToBigInt (rev buffer) =
     (if firstByteAnd0x80 buffer = 0 then Inr (int (magnitude_value buffer))
      else Inl NotImplemented)"
  by (simp add: byteArrayToBigInt_def Let_def toBigInt_magnitude_value)

lemma decodeEncoded_nonneg:
  assumes "0 \<le> v"
  shows "decodeEncoded v = Inr v"
proof -
  let ?m = "magnitude_be (nat v)"
  have val: "int (magnitude_value ?m) = v"
    using assms by (simp add: magnitude_value_magnitude_be)
  show ?thesis
  proof (cases "firstByteAnd0x80 ?m = 0")
    case True
    have "bigIntToByteArray v = Inr (rev ?m)"
      using True assms by (simp add: bigIntToByteArray_nonneg)
    moreover have "byteArrayToBigInt (rev ?m) = Inr v"
      using True val byteArrayToBigInt_rev [of ?m] by (simp add: magnitude_be_not_Nil)
    ultimately show ?thesis by (simp add: decodeEncoded_def)
  next
    case False
    have z: "firstByteAnd0x80 (0 # ?m) = 0" by (simp add: firstByteAnd0x80_def)
    have "bigIntToByteArray v = Inr (rev (0 # ?m))"
      using False assms by (simp add: bigIntToByteArray_nonneg)
    moreover have "byteArrayToBigInt (rev (0 # ?m)) = Inr v"
    proof -
      have "byteArrayToBigInt (rev (0 # ?m)) =
            (if firstByteAnd0x80 (0 # ?m) = 0 then Inr (int (magnitude_value (0 # ?m)))
             else Inl NotImplemented)"
        by (rule byteArrayToBigInt_rev) simp
      also have "\<dots> = Inr (int (magnitude_value ?m))"
        unfolding z magnitude_value_zero_Cons by simp
      finally show ?thesis unfolding val .
    qed
    ultimately show ?thesis by (simp only: decodeEncoded_def sum.case)
  qed
qed

lemma bigIntToByteArray_neg_sign:
  assumes "v < 0"
  shows "\<exists>r. r \<noteq> [] \<and> firstByteAnd0x80 r \<noteq> 0 \<and> bigIntToByteArray v = Inr (rev r)"
proof -
  define m where "m = (if allBitsSet (magnitude_be (nat (- v)))
                       then 0 # magnitude_be (nat (- v)) else magnitude_be (nat (- v)))"
  define r where "r = magnitude_be (magnitude_value (map (\<lambda>b. b XOR 0xff) m) + 1)"
  define r' where "r' = (if firstByteAnd0x80 r = 0 then 0xff # r else r)"
  have enc: "bigIntToByteArray v = Inr (rev r')"
    by (simp add: bigIntToByteArray_neg [OF assms] Let_def m_def r_def r'_def)
  have "r \<noteq> []" by (simp add: r_def magnitude_be_not_Nil)
  then have ne: "r' \<noteq> []" by (simp add: r'_def)
  have "firstByteAnd0x80 (0xff # r) \<noteq> 0" by (simp add: firstByteAnd0x80_def)
  then have "firstByteAnd0x80 r' \<noteq> 0" by (simp add: r'_def)
  with ne enc show ?thesis by blast
qed

lemma decodeEncoded_neg:
  assumes "v < 0"
  shows "decodeEncoded v = Inl NotImplemented"
proof -
  obtain r where r: "r \<noteq> []" "firstByteAnd0x80 r \<noteq> 0" "bigIntToByteArray v = Inr (rev r)"
    using bigIntToByteArray_neg_sign [OF assms] by blast
  have "byteArrayToBigInt (rev r) = Inl NotImplemented"
    using r(1,2) byteArrayToBigInt_rev [of r] by simp
  with r(3) show ?thesis by (simp add: decodeEncoded_def)
qed

lemma magnitude_be_hd_nonzero: "256 \<le> n \<Longrightarrow> hd (magnitude_be n) \<noteq> 0"
proof (induction n rule: magnitude_be.induct)
  case (1 n)
  show ?case
  proof (cases "n div 256 < 256")
    case True
    from "1.prems" have pos: "0 < n div 256" by simp
    have "magnitude_be n = [of_nat (n div 256), of_nat (n mod 256)]"
      using "1.prems" True
      by (simp add: magnitude_be.simps [of n] magnitude_be.simps [of "n div 256"])
    moreover have "(of_nat (n div 256) :: byte) \<noteq> 0"
      using True pos unat_byte_of_nat [of "n div 256"] by (metis less_numeral_extra(3) unat_0)
    ultimately show ?thesis by simp
  next
    case False
    then have "hd (magnitude_be (n div 256)) \<noteq> 0"
      using "1.IH" "1.prems" by simp
    then show ?thesis
      using "1.prems" by (simp add: magnitude_be.simps [of n] magnitude_be_not_Nil)
  qed
qed

text \<open>
  On the non-negative integers the encoding is the minimal two's complement one: the
  bytes stand for the value, and the most significant byte cannot be removed.
\<close>

lemma bigIntToByteArray_nonneg_minimal:
  assumes "0 \<le> v"
  shows "\<exists>bytes. bigIntToByteArray v = Inr bytes \<and> twosComplementValue bytes = v
           \<and> \<not> removableLeadingByte bytes"
proof -
  let ?m = "magnitude_be (nat v)"
  obtain b rest where m: "?m = b # rest"
    using magnitude_be_not_Nil [of "nat v"] by (cases ?m) auto
  have val: "int (magnitude_value ?m) = v"
    using assms by (simp add: magnitude_value_magnitude_be)
  have sign: "(firstByteAnd0x80 ?m \<noteq> 0) = bit b 7"
    using firstByteAnd0x80_eq_0_iff [of ?m] m by simp
  show ?thesis
  proof (cases "bit b 7")
    case True
    then have enc: "bigIntToByteArray v = Inr (rev (0 # ?m))"
      using assms sign by (simp add: bigIntToByteArray_nonneg)
    have "twosComplementValue (rev (0 # ?m)) = v"
      using val by (simp add: twosComplementValue_def magnitude_value_zero_Cons)
    moreover have "\<not> removableLeadingByte (rev (0 # ?m))"
      using True m by (simp add: removableLeadingByte_def)
    ultimately show ?thesis using enc by blast
  next
    case False
    then have enc: "bigIntToByteArray v = Inr (rev ?m)"
      using assms sign by (simp add: bigIntToByteArray_nonneg)
    have "last (rev ?m) = b" using m by simp
    then have "twosComplementValue (rev ?m) = v"
      using val False by (simp add: twosComplementValue_def)
    moreover have "\<not> removableLeadingByte (rev ?m)"
    proof (cases "nat v < 256")
      case True
      then have "?m = [of_nat (nat v)]" by (simp add: magnitude_be.simps [of "nat v"])
      then show ?thesis by (simp add: removableLeadingByte_def)
    next
      case large: False
      then have "hd ?m \<noteq> 0" by (intro magnitude_be_hd_nonzero) simp
      with m have "b \<noteq> 0" by simp
      moreover have "b \<noteq> 0xff" using False by auto
      ultimately show ?thesis
        using m by (simp add: removableLeadingByte_def split: list.splits)
    qed
    ultimately show ?thesis using enc by blast
  qed
qed

lemmas codec_eval_simps =
  magnitude_be.simps magnitude_value_def firstByteAnd0x80_def hexVal_def Let_def

lemma positiveValueTests_encode:
  "list_all (\<lambda>(v, expected). 0 \<le> v \<and> testConvertInt v expected) positiveValueTests"
  unfolding positiveValueTests_def testConvertInt_def
  by (simp add: bigIntToByteArray_nonneg codec_eval_simps)

lemma negativeValueTests_encode:
  "list_all (\<lambda>(v, expected). v < 0 \<and> testConvertInt v expected) negativeValueTests"
  unfolding negativeValueTests_def testConvertInt_def
  by (simp add: bigIntToByteArray_neg codec_eval_simps)


section \<open>Claims about the integer codec\<close>

text \<open>
  C1, as amended. For every entry of the two tables of the test file,
  \<open>bigIntToByteArray\<close> returns the expected bytes. For every entry of the positive
  table, \<open>byteArrayToBigInt\<close> of these bytes is the value again; for every entry of
  the negative table, \<open>byteArrayToBigInt\<close> of these bytes raises "Not Implemented".
\<close>

theorem C1_tables_encode_decode:
  "list_all (\<lambda>(v, expected).
       testConvertInt v expected \<and> testConvertBuffer v expected \<and> decodeEncoded v = Inr v)
     positiveValueTests
   \<and> list_all (\<lambda>(v, expected).
       testConvertInt v expected \<and> decodeEncoded v = Inl NotImplemented)
     negativeValueTests"
proof -
  have pos: "testConvertBuffer v expected \<and> decodeEncoded v = Inr v"
    if "0 \<le> v" "testConvertInt v expected" for v expected
  proof -
    have "decodeEncoded v = Inr v" using that(1) by (rule decodeEncoded_nonneg)
    moreover have "decodeEncoded v = byteArrayToBigInt (Buffer_from_hex expected)"
      using that(2) by (simp add: decodeEncoded_def testConvertInt_def)
    ultimately show ?thesis by (simp add: testConvertBuffer_def)
  qed
  have "list_all (\<lambda>(v, expected).
       testConvertInt v expected \<and> testConvertBuffer v expected \<and> decodeEncoded v = Inr v)
     positiveValueTests"
    using positiveValueTests_encode pos by (auto simp: list_all_iff)
  moreover have "list_all (\<lambda>(v, expected).
       testConvertInt v expected \<and> decodeEncoded v = Inl NotImplemented)
     negativeValueTests"
    using negativeValueTests_encode decodeEncoded_neg by (auto simp: list_all_iff)
  ultimately show ?thesis by simp
qed

theorem C1_tables_encode_decode_witness:
  "testConvertInt 128 ''8000'' \<and> testConvertBuffer 128 ''8000'' \<and> decodeEncoded 128 = Inr 128
   \<and> testConvertInt (- 129) ''7FFF'' \<and> decodeEncoded (- 129) = Inl NotImplemented"
  using C1_tables_encode_decode
  unfolding positiveValueTests_def negativeValueTests_def
  by simp

text \<open>
  C1 as stated fails on the negative half of the table: \<open>-1\<close> encodes to the byte
  \<open>FF\<close>, and decoding that byte raises instead of returning \<open>-1\<close>.
\<close>

theorem C1_roundtrip_counterexample:
  "bigIntToByteArray (- 1) = Inr [0xff]
   \<and> byteArrayToBigInt [0xff] = Inl NotImplemented
   \<and> decodeEncoded (- 1) \<noteq> Inr (- 1)"
proof -
  have a: "bigIntToByteArray (- 1) = Inr [0xff]"
    by (simp add: bigIntToByteArray_neg codec_eval_simps)
  have b: "byteArrayToBigInt [0xff] = Inl NotImplemented"
    by (simp add: byteArrayToBigInt_def firstByteAnd0x80_def)
  show ?thesis using a b by (simp add: decodeEncoded_def)
qed

text \<open>
  C2. For every integer \<open>n < 0\<close>, \<open>bigIntToByteArray n\<close> returns the bytes of the
  negative-encoding algorithm of the specification: the big-endian magnitude of \<open>|n|\<close>,
  padded with a \<open>0x00\<close> byte if all its bytes are \<open>0xFF\<close>, inverted bytewise, read as
  a big-endian magnitude, incremented, encoded again, given a \<open>0xFF\<close> byte in front if
  its most significant bit is clear, and reversed.
\<close>

theorem C2_negative_encoding:
  assumes "n < 0"
  shows "bigIntToByteArray n = Inr (spec_encode_negative n)"
proof -
  have abs: "nat \<bar>n\<bar> = nat (- n)" using assms by simp
  have inv: "map (\<lambda>b. b XOR 0xff) m = map (\<lambda>b. NOT b) m" for m :: "byte list"
    by (simp add: xor_ff_eq_not)
  have msb: "(if firstByteAnd0x80 r = 0 then 0xff # r else r)
             = (if bit (hd r) 7 then r else 0xff # r)" if "r \<noteq> []" for r
    using firstByteAnd0x80_eq_0_iff [OF that] by simp
  show ?thesis
    unfolding bigIntToByteArray_neg [OF assms] spec_encode_negative_def abs Let_def inv
      allBitsSet_list_all
    by (simp only: msb [OF magnitude_be_not_Nil])
qed

theorem C2_negative_encoding_witness:
  "(- 255 :: int) < 0 \<and> bigIntToByteArray (- 255) = Inr [0x01, 0xff]
   \<and> spec_encode_negative (- 255) = [0x01, 0xff]"
proof -
  have "spec_encode_negative (- 255) = [0x01, 0xff]"
    by (simp add: spec_encode_negative_def codec_eval_simps unsigned_minus_1_eq_mask
        mask_eq_exp_minus_1)
  then show ?thesis using C2_negative_encoding [of "- 255"] by simp
qed

text \<open>
  C3. \<open>bigIntToByteArray 0\<close> returns the single byte \<open>0x00\<close>, and for every integer
  \<open>n > 0\<close> it returns the big-endian magnitude bytes of \<open>n\<close>, with a \<open>0x00\<close> byte in
  front exactly when the most significant bit of the first magnitude byte is set,
  reversed to little-endian order.
\<close>

theorem C3_zero_and_positive_encoding:
  "bigIntToByteArray 0 = Inr [0x00]
   \<and> (0 < n \<longrightarrow> bigIntToByteArray n = Inr (spec_encode_positive n))"
proof -
  have zero: "bigIntToByteArray 0 = Inr [0x00]"
    by (simp add: bigIntToByteArray_nonneg codec_eval_simps)
  have "bigIntToByteArray n = Inr (spec_encode_positive n)" if "0 < n"
  proof -
    let ?m = "magnitude_be (nat n)"
    have "(firstByteAnd0x80 ?m \<noteq> 0) = bit (hd ?m) 7"
      using firstByteAnd0x80_eq_0_iff [OF magnitude_be_not_Nil, of "nat n"] by simp
    then show ?thesis
      using that by (simp add: bigIntToByteArray_nonneg spec_encode_positive_def Let_def)
  qed
  with zero show ?thesis by simp
qed

theorem C3_zero_and_positive_encoding_witness:
  "(0 :: int) < 128 \<and> bigIntToByteArray 128 = Inr [0x80, 0x00]
   \<and> spec_encode_positive 128 = [0x80, 0x00]
   \<and> (0 :: int) < 127 \<and> bigIntToByteArray 127 = Inr [0x7f]"
proof -
  have a: "spec_encode_positive 128 = [0x80, 0x00]"
    by (simp add: spec_encode_positive_def codec_eval_simps)
  have b: "spec_encode_positive 127 = [0x7f]"
    by (simp add: spec_encode_positive_def codec_eval_simps)
  show ?thesis
    using a b C3_zero_and_positive_encoding [of 128] C3_zero_and_positive_encoding [of 127]
    by simp
qed

text \<open>
  C4. On a non-empty byte array whose last byte (the most significant one) has the
  sign bit \<open>0x80\<close> set, \<open>byteArrayToBigInt\<close> raises "Not Implemented"; it returns a
  value only on a non-empty array whose last byte has the sign bit clear.
\<close>

theorem C4_decode_sign_bit:
  "(v \<noteq> [] \<and> last v AND 0x80 \<noteq> 0 \<longrightarrow> byteArrayToBigInt v = Inl NotImplemented)
   \<and> (byteArrayToBigInt v = Inr x \<longrightarrow> v \<noteq> [] \<and> last v AND 0x80 = 0)"
proof (cases v rule: rev_cases)
  case Nil
  then show ?thesis
    by (simp add: byteArrayToBigInt_def firstByteAnd0x80_def toBigInt_magnitude_value)
next
  case (snoc bs b)
  then show ?thesis
    by (simp add: byteArrayToBigInt_def firstByteAnd0x80_def)
qed

theorem C4_decode_sign_bit_witness:
  "[0x01, 0x80 :: byte] \<noteq> [] \<and> last [0x01, 0x80 :: byte] AND 0x80 \<noteq> 0
   \<and> byteArrayToBigInt [0x01, 0x80] = Inl NotImplemented
   \<and> byteArrayToBigInt [0x80, 0x00] = Inr 128
   \<and> last [0x80, 0x00 :: byte] AND 0x80 = 0"
proof -
  have "byteArrayToBigInt [0x80, 0x00] = Inr 128"
    by (simp add: byteArrayToBigInt_def toBigInt_magnitude_value codec_eval_simps)
  then show ?thesis
    using C4_decode_sign_bit [of "[0x01, 0x80]"] C4_decode_sign_bit [of "[0x80, 0x00]" 128]
    by simp
qed

text \<open>
  C5 fails on the code. The magnitude of \<open>-16711808\<close> is \<open>FF 00 80\<close>; inverting it gives
  \<open>00 FF 7F\<close>, whose leading zero byte is lost when the incremented value is encoded
  again. The function returns \<open>80 FF\<close>: the byte \<open>FF\<close> is a removable leading byte
  (the shorter \<open>80\<close> has the same value), and the value of the result is \<open>-128\<close>.
\<close>

theorem C5_removable_leading_byte:
  "bigIntToByteArray (- 16711808) = Inr [0x80, 0xff]
   \<and> removableLeadingByte [0x80, 0xff]
   \<and> twosComplementValue [0x80, 0xff] = - 128
   \<and> twosComplementValue [0x80] = - 128"
proof -
  have "bigIntToByteArray (- 16711808) = Inr [0x80, 0xff]"
    by (simp add: bigIntToByteArray_neg codec_eval_simps)
  moreover have "removableLeadingByte [0x80, 0xff]"
    by (simp add: removableLeadingByte_def)
  moreover have "twosComplementValue [0x80, 0xff] = - 128"
    by (simp add: twosComplementValue_def magnitude_value_def)
  moreover have "twosComplementValue [0x80] = - 128"
    by (simp add: twosComplementValue_def magnitude_value_def)
  ultimately show ?thesis by simp
qed

text \<open>
  C10. \<open>byteArrayToBigInt\<close> leaves its argument as it was: after the call the buffer the
  argument refers to holds the bytes it held before, whether the call returns a value
  or raises, and the outcome is that of the function on these bytes.
\<close>

theorem C10_argument_unchanged:
  assumes "v < length h"
  shows "snd (byteArrayToBigInt_store h v) ! v = h ! v
         \<and> fst (byteArrayToBigInt_store h v) = byteArrayToBigInt (h ! v)"
  using assms
  by (simp add: byteArrayToBigInt_store_def Buffer_from_def Buffer_reverse_def Let_def
      byteArrayToBigInt_def nth_append)

theorem C10_argument_unchanged_witness:
  "(0 :: nat) < length [[0x80, 0x00 :: byte], [0x01, 0x80]]
   \<and> snd (byteArrayToBigInt_store [[0x80, 0x00], [0x01, 0x80]] 0) ! 0 = [0x80, 0x00]
   \<and> fst (byteArrayToBigInt_store [[0x80, 0x00], [0x01, 0x80]] 0) = Inr 128
   \<and> snd (byteArrayToBigInt_store [[0x80, 0x00], [0x01, 0x80]] 1) ! 1 = [0x01, 0x80]
   \<and> fst (byteArrayToBigInt_store [[0x80, 0x00], [0x01, 0x80]] 1) = Inl NotImplemented"
proof -
  have a: "byteArrayToBigInt [0x80, 0x00] = Inr 128"
    by (simp add: byteArrayToBigInt_def toBigInt_magnitude_value codec_eval_simps)
  have b: "byteArrayToBigInt [0x01, 0x80] = Inl NotImplemented"
    by (simp add: byteArrayToBigInt_def firstByteAnd0x80_def)
  show ?thesis
    using a b C10_argument_unchanged [of 0 "[[0x80, 0x00], [0x01, 0x80]]"]
      C10_argument_unchanged [of 1 "[[0x80, 0x00], [0x01, 0x80]]"]
    by simp
qed

section \<open>Properties of the expression translator\<close>

lemma makeConditionalExpression_eq:
  "makeConditionalExpression next condition whenTrue whenFalse =
     (condition @ [\<lparr>obj = next + 2, kind = JumpIfNot next\<rparr>] @ whenTrue
        @ [\<lparr>obj = next + 3, kind = Jump (next + 1)\<rparr>]
        @ [\<lparr>obj = next, kind = Noop\<rparr>] @ whenFalse
        @ [\<lparr>obj = next + 1, kind = Noop\<rparr>],
      next + 4)"
  by (simp add: makeConditionalExpression_def newOperation_def ROA_append_def ROA_concat_def)

lemma targetsOk_append:
  "targetsOk pre (xs @ ys) post =
     (targetsOk pre xs (map obj ys @ post) \<and> targetsOk (pre @ map obj xs) ys post)"
  by (induction xs arbitrary: pre) auto

lemma count_list_0_iff_notin: "x \<notin> set xs \<Longrightarrow> count_list xs x = 0"
  by (simp add: count_list_0_iff)

text \<open>
  Whether the jumps of a stretch of a sequence are well targeted depends on the
  operations around the stretch only through the targets of these jumps.
\<close>

lemma targetsOk_cong:
  assumes "\<And>op t. op \<in> set xs \<Longrightarrow> targetOf op = Some t \<Longrightarrow>
             (t \<in> set pre) = (t \<in> set pre') \<and> count_list post t = count_list post' t"
  shows "targetsOk pre xs post = targetsOk pre' xs post'"
  using assms
proof (induction xs arbitrary: pre pre')
  case Nil
  then show ?case by simp
next
  case (Cons x rest)
  have j: "jumpOk pre x (map obj rest @ post) = jumpOk pre' x (map obj rest @ post')"
  proof (cases "targetOf x")
    case None
    then show ?thesis by (simp add: jumpOk_def)
  next
    case (Some t)
    with Cons.prems [of x t] show ?thesis by (simp add: jumpOk_def)
  qed
  have r: "targetsOk (pre @ [obj x]) rest post = targetsOk (pre' @ [obj x]) rest post'"
  proof (rule Cons.IH)
    fix y t assume "y \<in> set rest" "targetOf y = Some t"
    with Cons.prems [of y t]
    show "(t \<in> set (pre @ [obj x])) = (t \<in> set (pre' @ [obj x]))
          \<and> count_list post t = count_list post' t"
      by simp
  qed
  show ?case using j r by simp
qed

lemma allocatedBefore_notin:
  "allocatedBefore next xs \<Longrightarrow> next \<le> x \<Longrightarrow> x \<notin> set (map obj xs)"
  by (auto simp: allocatedBefore_def list_all_iff)

lemma targetsAllocatedBefore_target:
  "targetsAllocatedBefore next xs \<Longrightarrow> x \<in> set xs \<Longrightarrow> targetOf x = Some t \<Longrightarrow> t < next"
  by (auto simp: targetsAllocatedBefore_def list_all_iff)

lemma targetsAllocatedBefore_append:
  "targetsAllocatedBefore next (xs @ ys)
   = (targetsAllocatedBefore next xs \<and> targetsAllocatedBefore next ys)"
  by (simp add: targetsAllocatedBefore_def)

lemma allocatedBefore_append:
  "allocatedBefore next (xs @ ys) = (allocatedBefore next xs \<and> allocatedBefore next ys)"
  by (simp add: allocatedBefore_def)

text \<open>
  C6, as amended. From operation lists \<open>condition\<close>, \<open>whenTrue\<close> and \<open>whenFalse\<close> whose
  objects exist already, \<open>makeConditionalExpression\<close> returns the sequence
  \<open>condition\<close>, jump-if-not to \<open>falseTarget\<close>, \<open>whenTrue\<close>, jump to \<open>endTarget\<close>,
  \<open>falseTarget\<close>, \<open>whenFalse\<close>, \<open>endTarget\<close>, where \<open>falseTarget\<close> (the object \<open>next\<close>) and
  \<open>endTarget\<close> (the object \<open>next + 1\<close>) are two new, distinct no-ops that occur in none
  of the three lists. The target of each of the two jumps the function adds appears
  exactly once in the sequence, after the jump. The jumps of the three lists are left as
  they are: when their targets exist already, the target of every jump-style operation
  of the sequence appears exactly once, after it, if and only if that holds of
  \<open>condition\<close>, \<open>whenTrue\<close> and \<open>whenFalse\<close> put one after the other.
\<close>

theorem C6_makeConditionalExpression:
  assumes "allocatedBefore next (condition @ whenTrue @ whenFalse)"
  shows "fst (makeConditionalExpression next condition whenTrue whenFalse) =
           condition @ [\<lparr>obj = next + 2, kind = JumpIfNot next\<rparr>] @ whenTrue
           @ [\<lparr>obj = next + 3, kind = Jump (next + 1)\<rparr>]
           @ [\<lparr>obj = next, kind = Noop\<rparr>] @ whenFalse @ [\<lparr>obj = next + 1, kind = Noop\<rparr>]
         \<and> next \<noteq> next + 1
         \<and> next \<notin> set (map obj (condition @ whenTrue @ whenFalse))
         \<and> next + 1 \<notin> set (map obj (condition @ whenTrue @ whenFalse))
         \<and> jumpOk (map obj condition) \<lparr>obj = next + 2, kind = JumpIfNot next\<rparr>
              (map obj (whenTrue @ [\<lparr>obj = next + 3, kind = Jump (next + 1)\<rparr>]
                 @ [\<lparr>obj = next, kind = Noop\<rparr>] @ whenFalse
                 @ [\<lparr>obj = next + 1, kind = Noop\<rparr>]))
         \<and> jumpOk (map obj (condition @ [\<lparr>obj = next + 2, kind = JumpIfNot next\<rparr>] @ whenTrue))
              \<lparr>obj = next + 3, kind = Jump (next + 1)\<rparr>
              (map obj ([\<lparr>obj = next, kind = Noop\<rparr>] @ whenFalse
                 @ [\<lparr>obj = next + 1, kind = Noop\<rparr>]))
         \<and> (targetsAllocatedBefore next (condition @ whenTrue @ whenFalse) \<longrightarrow>
              wellTargeted (fst (makeConditionalExpression next condition whenTrue whenFalse))
              = wellTargeted (condition @ whenTrue @ whenFalse))"
proof -
  let ?c = "map obj condition" and ?t = "map obj whenTrue" and ?f = "map obj whenFalse"
  let ?j1 = "\<lparr>obj = next + 2, kind = JumpIfNot next\<rparr>"
  let ?j2 = "\<lparr>obj = next + 3, kind = Jump (next + 1)\<rparr>"
  let ?ft = "\<lparr>obj = next, kind = Noop\<rparr>" and ?et = "\<lparr>obj = next + 1, kind = Noop\<rparr>"
  have alloc: "allocatedBefore next condition" "allocatedBefore next whenTrue"
    "allocatedBefore next whenFalse"
    using assms by (simp_all add: allocatedBefore_append)
  have fresh: "next + k \<notin> set ?c" "next + k \<notin> set ?t" "next + k \<notin> set ?f" for k
    using alloc by (auto dest!: allocatedBefore_notin [where x = "next + k"])
  have fresh0: "next \<notin> set ?c" "next \<notin> set ?t" "next \<notin> set ?f"
    using fresh [of 0] by simp_all
  have cnt: "count_list ?c (next + k) = 0" "count_list ?t (next + k) = 0"
    "count_list ?f (next + k) = 0" for k
    using fresh [of k] by (simp_all add: count_list_0_iff_notin)
  have cnt0: "count_list ?c next = 0" "count_list ?t next = 0" "count_list ?f next = 0"
    using cnt [of 0] by simp_all
  have eq: "fst (makeConditionalExpression next condition whenTrue whenFalse) =
           condition @ [?j1] @ whenTrue @ [?j2] @ [?ft] @ whenFalse @ [?et]"
    by (simp add: makeConditionalExpression_eq)
  have j1: "jumpOk ?c ?j1 (map obj (whenTrue @ [?j2] @ [?ft] @ whenFalse @ [?et]))"
    using fresh0 cnt0 by (simp add: jumpOk_def targetOf_def)
  have j2: "jumpOk (map obj (condition @ [?j1] @ whenTrue)) ?j2
              (map obj ([?ft] @ whenFalse @ [?et]))"
    using fresh [of 1] cnt [of 1] by (simp add: jumpOk_def targetOf_def)
  have n: "jumpOk pre ?ft post" "jumpOk pre ?et post" for pre post
    by (simp_all add: jumpOk_def targetOf_def)
  have wt: "wellTargeted (fst (makeConditionalExpression next condition whenTrue whenFalse))
            = wellTargeted (condition @ whenTrue @ whenFalse)"
    if ta: "targetsAllocatedBefore next (condition @ whenTrue @ whenFalse)"
  proof -
    have talloc: "targetsAllocatedBefore next condition" "targetsAllocatedBefore next whenTrue"
      "targetsAllocatedBefore next whenFalse"
      using ta by (simp_all add: targetsAllocatedBefore_append)
    have a: "targetsOk [] condition ([next + 2] @ ?t @ [next + 3, next] @ ?f @ [next + 1])
             = targetsOk [] condition (?t @ ?f)"
    proof (rule targetsOk_cong)
      fix x t assume "x \<in> set condition" "targetOf x = Some t"
      then have "t < next" using talloc(1) by (rule targetsAllocatedBefore_target [rotated])
      then show "(t \<in> set []) = (t \<in> set [])
                 \<and> count_list ([next + 2] @ ?t @ [next + 3, next] @ ?f @ [next + 1]) t
                   = count_list (?t @ ?f) t"
        by simp
    qed
    have b: "targetsOk (?c @ [next + 2]) whenTrue ([next + 3, next] @ ?f @ [next + 1])
             = targetsOk ?c whenTrue ?f"
    proof (rule targetsOk_cong)
      fix x t assume "x \<in> set whenTrue" "targetOf x = Some t"
      then have "t < next" using talloc(2) by (rule targetsAllocatedBefore_target [rotated])
      then show "(t \<in> set (?c @ [next + 2])) = (t \<in> set ?c)
                 \<and> count_list ([next + 3, next] @ ?f @ [next + 1]) t = count_list ?f t"
        by simp
    qed
    have c: "targetsOk (?c @ [next + 2] @ ?t @ [next + 3, next]) whenFalse [next + 1]
             = targetsOk (?c @ ?t) whenFalse []"
    proof (rule targetsOk_cong)
      fix x t assume "x \<in> set whenFalse" "targetOf x = Some t"
      then have "t < next" using talloc(3) by (rule targetsAllocatedBefore_target [rotated])
      then show "(t \<in> set (?c @ [next + 2] @ ?t @ [next + 3, next])) = (t \<in> set (?c @ ?t))
                 \<and> count_list [next + 1] t = count_list [] t"
        by auto
    qed
    show ?thesis
      unfolding eq wellTargeted_def
      using a b c j1 j2 n by (simp add: targetsOk_append)
  qed
  show ?thesis
    using eq j1 j2 wt fresh0 fresh [of 1] by simp
qed

theorem C6_makeConditionalExpression_witness:
  "allocatedBefore 4
     ([\<lparr>obj = 0, kind = PushBool True\<rparr>, \<lparr>obj = 1, kind = Jump 3\<rparr>]
      @ [\<lparr>obj = 2, kind = PushInt 7\<rparr>]
      @ [\<lparr>obj = 3, kind = Noop\<rparr>])
   \<and> targetsAllocatedBefore 4
     ([\<lparr>obj = 0, kind = PushBool True\<rparr>, \<lparr>obj = 1, kind = Jump 3\<rparr>]
      @ [\<lparr>obj = 2, kind = PushInt 7\<rparr>]
      @ [\<lparr>obj = 3, kind = Noop\<rparr>])
   \<and> fst (makeConditionalExpression 4
          [\<lparr>obj = 0, kind = PushBool True\<rparr>, \<lparr>obj = 1, kind = Jump 3\<rparr>]
          [\<lparr>obj = 2, kind = PushInt 7\<rparr>]
          [\<lparr>obj = 3, kind = Noop\<rparr>])
       = [\<lparr>obj = 0, kind = PushBool True\<rparr>, \<lparr>obj = 1, kind = Jump 3\<rparr>,
          \<lparr>obj = 6, kind = JumpIfNot 4\<rparr>, \<lparr>obj = 2, kind = PushInt 7\<rparr>,
          \<lparr>obj = 7, kind = Jump 5\<rparr>, \<lparr>obj = 4, kind = Noop\<rparr>,
          \<lparr>obj = 3, kind = Noop\<rparr>, \<lparr>obj = 5, kind = Noop\<rparr>]
   \<and> wellTargeted ([\<lparr>obj = 0, kind = PushBool True\<rparr>, \<lparr>obj = 1, kind = Jump 3\<rparr>]
        @ [\<lparr>obj = 2, kind = PushInt 7\<rparr>] @ [\<lparr>obj = 3, kind = Noop\<rparr>])
   \<and> wellTargeted (fst (makeConditionalExpression 4
          [\<lparr>obj = 0, kind = PushBool True\<rparr>, \<lparr>obj = 1, kind = Jump 3\<rparr>]
          [\<lparr>obj = 2, kind = PushInt 7\<rparr>]
          [\<lparr>obj = 3, kind = Noop\<rparr>]))"
proof -
  have h: "allocatedBefore 4
     ([\<lparr>obj = 0, kind = PushBool True\<rparr>, \<lparr>obj = 1, kind = Jump 3\<rparr>]
      @ [\<lparr>obj = 2, kind = PushInt 7\<rparr>]
      @ [\<lparr>obj = 3, kind = Noop\<rparr>])"
    by (simp add: allocatedBefore_def)
  have h': "targetsAllocatedBefore 4
     ([\<lparr>obj = 0, kind = PushBool True\<rparr>, \<lparr>obj = 1, kind = Jump 3\<rparr>]
      @ [\<lparr>obj = 2, kind = PushInt 7\<rparr>]
      @ [\<lparr>obj = 3, kind = Noop\<rparr>])"
    by (simp add: targetsAllocatedBefore_def targetOf_def)
  have w: "wellTargeted ([\<lparr>obj = 0, kind = PushBool True\<rparr>, \<lparr>obj = 1, kind = Jump 3\<rparr>]
        @ [\<lparr>obj = 2, kind = PushInt 7\<rparr>] @ [\<lparr>obj = 3, kind = Noop\<rparr>])"
    by (simp add: wellTargeted_def jumpOk_def targetOf_def)
  have eq: "fst (makeConditionalExpression 4
          [\<lparr>obj = 0, kind = PushBool True\<rparr>, \<lparr>obj = 1, kind = Jump 3\<rparr>]
          [\<lparr>obj = 2, kind = PushInt 7\<rparr>]
          [\<lparr>obj = 3, kind = Noop\<rparr>])
       = [\<lparr>obj = 0, kind = PushBool True\<rparr>, \<lparr>obj = 1, kind = Jump 3\<rparr>,
          \<lparr>obj = 6, kind = JumpIfNot 4\<rparr>, \<lparr>obj = 2, kind = PushInt 7\<rparr>,
          \<lparr>obj = 7, kind = Jump 5\<rparr>, \<lparr>obj = 4, kind = Noop\<rparr>,
          \<lparr>obj = 3, kind = Noop\<rparr>, \<lparr>obj = 5, kind = Noop\<rparr>]"
    using C6_makeConditionalExpression [OF h] by simp
  have wt: "wellTargeted (fst (makeConditionalExpression 4
          [\<lparr>obj = 0, kind = PushBool True\<rparr>, \<lparr>obj = 1, kind = Jump 3\<rparr>]
          [\<lparr>obj = 2, kind = PushInt 7\<rparr>]
          [\<lparr>obj = 3, kind = Noop\<rparr>]))"
    using C6_makeConditionalExpression [OF h] h' w by blast
  show ?thesis
    using h h' w eq wt by blast
qed

text \<open>
  C6 as stated fails for a list with a jump whose target is placed later by the caller:
  with the one jump to the existing object 0 as \<open>condition\<close>, object 0 appears nowhere
  in the sequence returned.
\<close>

theorem C6_dangling_target_counterexample:
  "allocatedBefore 2 ([\<lparr>obj = 1, kind = Jump 0\<rparr>] @ [] @ [])
   \<and> targetsAllocatedBefore 2 ([\<lparr>obj = 1, kind = Jump 0\<rparr>] @ [] @ [])
   \<and> fst (makeConditionalExpression 2 [\<lparr>obj = 1, kind = Jump 0\<rparr>] [] [])
       = [\<lparr>obj = 1, kind = Jump 0\<rparr>, \<lparr>obj = 4, kind = JumpIfNot 2\<rparr>,
          \<lparr>obj = 5, kind = Jump 3\<rparr>, \<lparr>obj = 2, kind = Noop\<rparr>, \<lparr>obj = 3, kind = Noop\<rparr>]
   \<and> targetOf \<lparr>obj = 1, kind = Jump 0\<rparr> = Some 0
   \<and> count_list (map obj (fst (makeConditionalExpression 2 [\<lparr>obj = 1, kind = Jump 0\<rparr>] [] []))) 0
       = 0
   \<and> \<not> wellTargeted (fst (makeConditionalExpression 2 [\<lparr>obj = 1, kind = Jump 0\<rparr>] [] []))"
  by (simp add: makeConditionalExpression_eq allocatedBefore_def targetsAllocatedBefore_def
      wellTargeted_def jumpOk_def targetOf_def)

lemma reduceExpressionChain_error:
  "error context \<noteq> None \<Longrightarrow>
   reduceExpressionChain parseSymbol resolve (context, k) n = (context, k)"
  by (simp add: reduceExpressionChain_def)

lemma foldl_reduceExpressionChain_error:
  "error context \<noteq> None \<Longrightarrow>
   foldl (reduceExpressionChain parseSymbol resolve) (context, k) nodes = (context, k)"
  by (induction nodes) (simp_all add: reduceExpressionChain_error)

text \<open>
  C9. Once the context of the chain holds an error, a reduction step returns the
  context as it is, and so does the reduction of any further nodes: no operation is
  appended and the error is kept. So when the chain of an expression is \<open>pre\<close>, \<open>x\<close>,
  \<open>post\<close>, the reduction of \<open>pre\<close> records no error and the step on \<open>x\<close> records the
  error \<open>err\<close>, \<open>parseExpression\<close> returns \<open>err\<close>, whatever \<open>post\<close> is.
\<close>

theorem C9_chain_short_circuit:
  "(error context \<noteq> None \<longrightarrow>
      reduceExpressionChain parseSymbol resolve (context, k) n = (context, k)
      \<and> foldl (reduceExpressionChain parseSymbol resolve) (context, k) nodes = (context, k))
   \<and> (makeExpressionChain e = pre @ x # post
      \<and> error (fst (foldl (reduceExpressionChain parseSymbol resolve)
           (\<lparr>scope = s, endTarget = \<lparr>obj = next, kind = Noop\<rparr>, ops = [], cto = None,
             error = None\<rparr>, next + 1) pre)) = None
      \<and> error (fst (reduceExpressionChain parseSymbol resolve
           (foldl (reduceExpressionChain parseSymbol resolve)
             (\<lparr>scope = s, endTarget = \<lparr>obj = next, kind = Noop\<rparr>, ops = [], cto = None,
               error = None\<rparr>, next + 1) pre) x)) = Some err
      \<longrightarrow> fst (parseExpression parseSymbol resolve next s e) = Inl err)"
proof -
  let ?step = "reduceExpressionChain parseSymbol resolve"
  let ?init = "(\<lparr>scope = s, endTarget = \<lparr>obj = next, kind = Noop\<rparr>, ops = [], cto = None,
                 error = None\<rparr>, next + 1)"
  have a: "?step (context, k) n = (context, k) \<and> foldl ?step (context, k) nodes = (context, k)"
    if "error context \<noteq> None"
    using that by (simp add: reduceExpressionChain_error foldl_reduceExpressionChain_error)
  have b: "fst (parseExpression parseSymbol resolve next s e) = Inl err"
    if chain: "makeExpressionChain e = pre @ x # post"
      and stepx: "error (fst (?step (foldl ?step ?init pre) x)) = Some err"
  proof -
    obtain c k where ck: "?step (foldl ?step ?init pre) x = (c, k)"
      by (cases "?step (foldl ?step ?init pre) x")
    with stepx have c: "error c = Some err" by simp
    have "foldl ?step ?init (pre @ x # post) = foldl ?step (c, k) post"
      by (simp only: foldl_append foldl_Cons ck)
    also have "\<dots> = (c, k)"
      using c by (simp add: foldl_reduceExpressionChain_error)
    finally have "foldl ?step ?init (makeExpressionChain e) = (c, k)"
      by (simp only: chain)
    then show ?thesis
      using c by (simp add: parseExpression_def newOperation_def Let_def)
  qed
  show ?thesis using a b by blast
qed

theorem C9_chain_short_circuit_witness:
  "error \<lparr>scope = (), endTarget = \<lparr>obj = 0, kind = Noop\<rparr>, ops = [], cto = None,
          error = Some (makeParseError (Identifier ''x'') ''Failed to resolve identifier x'')\<rparr>
     \<noteq> None
   \<and> reduceExpressionChain (\<lambda>n. Inr (Symbol 0 ''x'')) (\<lambda>s y. None)
       (\<lparr>scope = (), endTarget = \<lparr>obj = 0, kind = Noop\<rparr>, ops = [], cto = None,
          error = Some (makeParseError (Identifier ''x'') ''Failed to resolve identifier x'')\<rparr>,
        1) NullKeyword
     = (\<lparr>scope = (), endTarget = \<lparr>obj = 0, kind = Noop\<rparr>, ops = [], cto = None,
          error = Some (makeParseError (Identifier ''x'') ''Failed to resolve identifier x'')\<rparr>,
        1)
   \<and> makeExpressionChain
        (OtherExpression ''CallExpression''
          (Some (OtherExpression ''PropertyAccessExpression'' (Some (Identifier ''x'')))))
     = [] @ Identifier ''x''
       # [OtherExpression ''PropertyAccessExpression'' (Some (Identifier ''x'')),
          OtherExpression ''CallExpression''
            (Some (OtherExpression ''PropertyAccessExpression'' (Some (Identifier ''x''))))]
   \<and> fst (parseExpression (\<lambda>n. Inr (Symbol 0 ''x'')) (\<lambda>s y. None) 0 ()
        (OtherExpression ''CallExpression''
          (Some (OtherExpression ''PropertyAccessExpression'' (Some (Identifier ''x''))))))
     = Inl (makeParseError (Identifier ''x'') ''Failed to resolve identifier x'')"
proof -
  let ?P = "\<lambda>n :: tsExpression. (Inr (Symbol 0 ''x'') :: ParseError + Symbol)"
  let ?R = "\<lambda>(s :: unit) (y :: Symbol). (None :: unit CompileTimeObject option)"
  let ?e = "OtherExpression ''CallExpression''
          (Some (OtherExpression ''PropertyAccessExpression'' (Some (Identifier ''x''))))"
  let ?err = "makeParseError (Identifier ''x'') ''Failed to resolve identifier x''"
  let ?c = "\<lparr>scope = (), endTarget = \<lparr>obj = 0, kind = Noop\<rparr>, ops = [], cto = None,
          error = Some ?err\<rparr>"
  have chain: "makeExpressionChain ?e = [] @ Identifier ''x''
       # [OtherExpression ''PropertyAccessExpression'' (Some (Identifier ''x'')), ?e]"
    by (simp add: makeExpressionChain_def)
  have step: "error (fst (reduceExpressionChain ?P ?R
           (foldl (reduceExpressionChain ?P ?R)
             (\<lparr>scope = (), endTarget = \<lparr>obj = 0, kind = Noop\<rparr>, ops = [], cto = None,
               error = None\<rparr>, 0 + 1) []) (Identifier ''x''))) = Some ?err"
    by (simp add: reduceExpressionChain_def reduceIdentifier_def)
  show ?thesis
    using chain step
      C9_chain_short_circuit [of ?c ?P ?R 1 NullKeyword "[]" ?e "[]" "Identifier ''x''"
        "[OtherExpression ''PropertyAccessExpression'' (Some (Identifier ''x'')), ?e]"
        "()" 0 ?err]
    by simp
qed

section \<open>Properties of the compile pipeline\<close>

lemma mapOrThrow_length: "mapOrThrow f xs = Inr ys \<Longrightarrow> length ys = length xs"
  by (induction xs arbitrary: ys) (auto split: sum.splits)



lemma toMethodDef_exported:
  assumes "hasExportKeyword f"
  shows "(\<exists>err. toMethodDef T f off = Inl err) \<or> (\<exists>e. toMethodDef T f off = Inr (Some e))"
  using assms
  by (auto simp: toMethodDef_def Let_def split: sum.splits)








lemma resolveDeclarationsPass_frame:
  "snd (resolveDeclarationsPass c) = None
   \<and> artifacts (fst (resolveDeclarationsPass c)) = artifacts c
   \<and> diagnostics (fst (resolveDeclarationsPass c)) = diagnostics c"
  by (simp add: resolveDeclarationsPass_def Let_def)

lemma processFunction_frame:
  "artifacts (fst (processFunction ext c f)) = artifacts c
   \<and> diagnostics (fst (processFunction ext c f)) = diagnostics c"
  by (simp add: processFunction_def Let_def split: option.splits sum.splits prod.splits)

lemma processChildren_frame:
  "artifacts (fst (processChildren ext c cs)) = artifacts c
   \<and> diagnostics (fst (processChildren ext c cs)) = diagnostics c"
proof (induction cs arbitrary: c)
  case Nil
  then show ?case by simp
next
  case (Cons child rest)
  show ?case
  proof (cases child)
    case (FunctionDeclarationNode f)
    obtain c' r where p: "processFunction ext c f = (c', r)"
      by (cases "processFunction ext c f")
    with processFunction_frame [of ext c f]
    have fr: "artifacts c' = artifacts c" "diagnostics c' = diagnostics c" by simp_all
    show ?thesis
    proof (cases r)
      case None
      with p fr FunctionDeclarationNode Cons.IH [of c'] show ?thesis by simp
    next
      case (Some err)
      with p fr FunctionDeclarationNode show ?thesis by simp
    qed
  qed (simp_all add: Cons.IH)
qed

lemma processSourceFiles_frame:
  "artifacts (fst (processSourceFiles ext c srcs)) = artifacts c
   \<and> diagnostics (fst (processSourceFiles ext c srcs)) = diagnostics c"
proof (induction srcs arbitrary: c)
  case Nil
  then show ?case by simp
next
  case (Cons src rest)
  show ?case
  proof (cases "isDeclarationFile src")
    case True
    with Cons.IH [of c] show ?thesis by simp
  next
    case False
    obtain c' r where p: "processChildren ext c (children src) = (c', r)"
      by (cases "processChildren ext c (children src)")
    with processChildren_frame [of ext c "children src"]
    have fr: "artifacts c' = artifacts c" "diagnostics c' = diagnostics c"
      by simp_all
    show ?thesis
    proof (cases r)
      case None
      with p fr False Cons.IH [of c'] show ?thesis by simp
    next
      case (Some err)
      with p fr False show ?thesis by simp
    qed
  qed
qed

lemma processFunctionsPass_frame:
  "artifacts (fst (processFunctionsPass ext c)) = artifacts c
   \<and> diagnostics (fst (processFunctionsPass ext c)) = diagnostics c"
  by (simp add: processFunctionsPass_def processSourceFiles_frame)

lemma collectArtifactsPass_frame:
  "diagnostics (fst (collectArtifactsPass ext c)) = diagnostics c
   \<and> (snd (collectArtifactsPass ext c) \<noteq> None \<longrightarrow> fst (collectArtifactsPass ext c) = c)
   \<and> (snd (collectArtifactsPass ext c) = None \<longrightarrow>
        artifacts (fst (collectArtifactsPass ext c)) \<noteq> None)"
  by (simp add: collectArtifactsPass_def Let_def split: sum.splits prod.splits)

lemma hasErrorDiagnostic_thrown:
  "hasErrorDiagnostic (c\<lparr>diagnostics := diagnostics c @ [thrownDiagnostic err]\<rparr>)"
  by (simp add: hasErrorDiagnostic_def thrownDiagnostic_def Let_def list_ex_iff)

text \<open>
  The loop of \<open>compile\<close> runs a prefix of the passes, in order: it ends with the first
  pass that leaves an error diagnostic in the context.
\<close>

lemma runPasses_prefix:
  "\<exists>k \<le> length ps.
     runPasses ps c = foldl (\<lambda>c p. tryPass p c) c (take k ps)
     \<and> (\<forall>j. 0 < j \<and> j < k \<longrightarrow> \<not> hasErrorDiagnostic (foldl (\<lambda>c p. tryPass p c) c (take j ps)))
     \<and> (k < length ps \<longrightarrow> 0 < k \<and> hasErrorDiagnostic (foldl (\<lambda>c p. tryPass p c) c (take k ps)))"
proof (induction ps arbitrary: c)
  case Nil
  then show ?case by simp
next
  case (Cons p ps)
  let ?c' = "tryPass p c"
  show ?case
  proof (cases "hasErrorDiagnostic ?c'")
    case True
    then have "runPasses (p # ps) c = foldl (\<lambda>c p. tryPass p c) c (take 1 (p # ps))"
      by simp
    with True show ?thesis
      by (intro exI [of _ 1]) simp
  next
    case False
    from Cons.IH [of ?c'] obtain k where k: "k \<le> length ps"
      "runPasses ps ?c' = foldl (\<lambda>c p. tryPass p c) ?c' (take k ps)"
      "\<forall>j. 0 < j \<and> j < k \<longrightarrow> \<not> hasErrorDiagnostic (foldl (\<lambda>c p. tryPass p c) ?c' (take j ps))"
      "k < length ps \<longrightarrow> 0 < k \<and> hasErrorDiagnostic (foldl (\<lambda>c p. tryPass p c) ?c' (take k ps))"
      by blast
    have a: "runPasses (p # ps) c = foldl (\<lambda>c p. tryPass p c) c (take (Suc k) (p # ps))"
      using False k(2) by simp
    have b: "\<not> hasErrorDiagnostic (foldl (\<lambda>c p. tryPass p c) c (take j (p # ps)))"
      if "0 < j" "j < Suc k" for j
    proof (cases j)
      case 0
      with that show ?thesis by simp
    next
      case (Suc i)
      show ?thesis
      proof (cases "i = 0")
        case True
        with Suc False show ?thesis by simp
      next
        case False
        with Suc that k(3) show ?thesis by simp
      qed
    qed
    have c: "Suc k < length (p # ps) \<longrightarrow>
             0 < Suc k \<and> hasErrorDiagnostic (foldl (\<lambda>c p. tryPass p c) c (take (Suc k) (p # ps)))"
      using k(4) by simp
    show ?thesis
      using k(1) a b c by (intro exI [of _ "Suc k"]) simp
  qed
qed

lemma compile_artifacts:
  "hasErrorDiagnostic (resultContext (compile ext options))
   = (resultArtifacts (compile ext options) = None)"
proof -
  let ?c0 = "initialContext options"
  have c0: "artifacts ?c0 = None" "diagnostics ?c0 = []"
    by (simp_all add: initialContext_def)
  obtain c1 where c1: "resolveDeclarationsPass ?c0 = (c1, None)"
    using resolveDeclarationsPass_frame [of ?c0]
    by (cases "resolveDeclarationsPass ?c0") simp
  have f1: "artifacts c1 = None" "diagnostics c1 = []"
    using resolveDeclarationsPass_frame [of ?c0] c1 c0 by simp_all
  have t1: "tryPass resolveDeclarationsPass ?c0 = c1"
    by (simp add: tryPass_def c1)
  have ne1: "\<not> hasErrorDiagnostic c1"
    by (simp add: hasErrorDiagnostic_def f1)
  obtain c2 r2 where c2: "processFunctionsPass ext c1 = (c2, r2)"
    by (cases "processFunctionsPass ext c1")
  have f2: "artifacts c2 = None" "diagnostics c2 = []"
    using processFunctionsPass_frame [of ext c1] c2 f1 by simp_all
  show ?thesis
  proof (cases r2)
    case (Some err)
    then have "tryPass (processFunctionsPass ext) c1
               = c2\<lparr>diagnostics := diagnostics c2 @ [thrownDiagnostic err]\<rparr>"
      by (simp add: tryPass_def c2)
    then show ?thesis
      using t1 ne1 f2 hasErrorDiagnostic_thrown [of c2 err]
      by (simp add: compile_def passes_def Let_def)
  next
    case None
    then have t2: "tryPass (processFunctionsPass ext) c1 = c2"
      by (simp add: tryPass_def c2)
    have ne2: "\<not> hasErrorDiagnostic c2"
      by (simp add: hasErrorDiagnostic_def f2)
    obtain c3 r3 where c3: "collectArtifactsPass ext c2 = (c3, r3)"
      by (cases "collectArtifactsPass ext c2")
    have f3: "diagnostics c3 = []" "r3 \<noteq> None \<longrightarrow> c3 = c2" "r3 = None \<longrightarrow> artifacts c3 \<noteq> None"
      using collectArtifactsPass_frame [of ext c2] c3 f2 by simp_all
    show ?thesis
    proof (cases r3)
      case (Some err)
      then have "tryPass (collectArtifactsPass ext) c2
                 = c2\<lparr>diagnostics := diagnostics c2 @ [thrownDiagnostic err]\<rparr>"
        using f3 by (simp add: tryPass_def c3)
      then show ?thesis
        using t1 ne1 t2 ne2 f2 hasErrorDiagnostic_thrown [of c2 err]
        by (simp add: compile_def passes_def Let_def)
    next
      case None
      then have t3: "tryPass (collectArtifactsPass ext) c2 = c3"
        by (simp add: tryPass_def c3)
      have "\<not> hasErrorDiagnostic c3"
        by (simp add: hasErrorDiagnostic_def f3)
      then show ?thesis
        using t1 ne1 t2 ne2 t3 f3 None
        by (simp add: compile_def passes_def Let_def)
    qed
  qed
qed












lemma sample_compile_bodyless:
  "compile sampleExternals (sampleOptions [sampleBodyless]) =
     \<lparr>resultDiagnostics = [thrownDiagnostic (JsError ''Expected to find the node's body.'')],
      resultArtifacts = None,
      resultContext = (initialContext (sampleOptions [sampleBodyless]))
        \<lparr>builtins := Some \<lparr>variables = Map.empty, interfaces = Map.empty\<rparr>,
         operations := Some [\<lparr>ocName = ''main'', isPublic = True, ocNode = sampleBodyless,
                               builder = []\<rparr>],
         diagnostics := [thrownDiagnostic (JsError ''Expected to find the node's body.'')]\<rparr>\<rparr>"
  by (simp add: compile_def passes_def tryPass_def resolveDeclarationsPass_def
      processFunctionsPass_def processFunction_def getBodyOrThrow_def sampleOptions_def
      sampleBodyless_def initialContext_def resolveSourceFile_def operationsOf_def
      hasErrorDiagnostic_def thrownDiagnostic_def Let_def)








text \<open>
  C8. \<open>compile\<close> runs a prefix of its three passes (declaration resolution, function
  processing, artifact collection), in order: no pass runs once an earlier one has left
  an error diagnostic in the list, and if fewer than three passes ran the list holds an
  error diagnostic. Whenever the diagnostics of the result hold an error diagnostic, the
  result has no artifacts.
\<close>

theorem C8_compile_halts_on_error:
  "passes ext = [resolveDeclarationsPass, processFunctionsPass ext, collectArtifactsPass ext]
   \<and> (\<exists>k \<le> length (passes ext).
        resultContext (compile ext options)
          = foldl (\<lambda>c p. tryPass p c) (initialContext options) (take k (passes ext))
        \<and> (\<forall>j. j < k \<longrightarrow>
             \<not> hasErrorDiagnostic
                 (foldl (\<lambda>c p. tryPass p c) (initialContext options) (take j (passes ext))))
        \<and> (k < length (passes ext) \<longrightarrow>
             hasErrorDiagnostic (resultContext (compile ext options))))
   \<and> resultDiagnostics (compile ext options) = diagnostics (resultContext (compile ext options))
   \<and> resultArtifacts (compile ext options) = artifacts (resultContext (compile ext options))
   \<and> (hasErrorDiagnostic (resultContext (compile ext options))
        \<longrightarrow> resultArtifacts (compile ext options) = None)"
proof -
  let ?run = "\<lambda>n. foldl (\<lambda>c p. tryPass p c) (initialContext options) (take n (passes ext))"
  have rc: "resultContext (compile ext options) = runPasses (passes ext) (initialContext options)"
    by (simp add: compile_def Let_def)
  from runPasses_prefix [of "passes ext" "initialContext options"]
  obtain k where k: "k \<le> length (passes ext)"
    "runPasses (passes ext) (initialContext options) = ?run k"
    "\<forall>j. 0 < j \<and> j < k \<longrightarrow> \<not> hasErrorDiagnostic (?run j)"
    "k < length (passes ext) \<longrightarrow> 0 < k \<and> hasErrorDiagnostic (?run k)"
    by blast
  have init: "\<not> hasErrorDiagnostic (?run 0)"
    by (simp add: hasErrorDiagnostic_def initialContext_def)
  have all: "\<forall>j. j < k \<longrightarrow> \<not> hasErrorDiagnostic (?run j)"
  proof (intro allI impI)
    fix j assume "j < k"
    show "\<not> hasErrorDiagnostic (?run j)"
    proof (cases "j = 0")
      case True
      with init show ?thesis by simp
    next
      case False
      with \<open>j < k\<close> k(3) show ?thesis by simp
    qed
  qed
  have ex: "\<exists>k \<le> length (passes ext).
        resultContext (compile ext options) = ?run k
        \<and> (\<forall>j. j < k \<longrightarrow> \<not> hasErrorDiagnostic (?run j))
        \<and> (k < length (passes ext) \<longrightarrow> hasErrorDiagnostic (resultContext (compile ext options)))"
    using k(1,2,4) all rc by (intro exI [of _ k]) simp
  have fields: "resultDiagnostics (compile ext options)
                  = diagnostics (resultContext (compile ext options))"
    "resultArtifacts (compile ext options) = artifacts (resultContext (compile ext options))"
    by (simp_all add: compile_def Let_def)
  show ?thesis
    using ex fields compile_artifacts [of ext options]
    by (simp add: passes_def)
qed

theorem C8_compile_halts_on_error_witness:
  "hasErrorDiagnostic (resultContext (compile sampleExternals (sampleOptions [sampleBodyless])))
   \<and> resultDiagnostics (compile sampleExternals (sampleOptions [sampleBodyless]))
       = [thrownDiagnostic (JsError ''Expected to find the node's body.'')]
   \<and> resultArtifacts (compile sampleExternals (sampleOptions [sampleBodyless])) = None
   \<and> resultContext (compile sampleExternals (sampleOptions [sampleBodyless]))
       = foldl (\<lambda>c p. tryPass p c) (initialContext (sampleOptions [sampleBodyless]))
           (take 2 (passes sampleExternals))"
proof -
  have err: "hasErrorDiagnostic
      (resultContext (compile sampleExternals (sampleOptions [sampleBodyless])))"
    by (simp add: sample_compile_bodyless hasErrorDiagnostic_def thrownDiagnostic_def)
  have run: "resultContext (compile sampleExternals (sampleOptions [sampleBodyless]))
       = foldl (\<lambda>c p. tryPass p c) (initialContext (sampleOptions [sampleBodyless]))
           (take 2 (passes sampleExternals))"
    unfolding sample_compile_bodyless
    by (simp add: passes_def tryPass_def resolveDeclarationsPass_def
      processFunctionsPass_def processFunction_def getBodyOrThrow_def sampleOptions_def
      sampleBodyless_def initialContext_def resolveSourceFile_def operationsOf_def Let_def)
  show ?thesis
    using err run C8_compile_halts_on_error [of sampleExternals "sampleOptions [sampleBodyless]"]
    by (simp add: sample_compile_bodyless)
qed

end
